theory Spec2Isabelle
  imports Complex_Main "HOL-Library.Monad_Syntax" "HOL-Library.Char_ord" "HOL-Library.List_Lexorder"
    "HOL-Library.Multiset"
begin

section \<open>Python values\<close>

text \<open>
  The providers answer with JSON, and the normalizers read it with \<^verbatim>\<open>dict.get\<close>, so a
  nutrient value can be any JSON value, not only a number. A JSON object is an association
  list read with \<open>map_of\<close>. Python's \<^verbatim>\<open>int\<close> and \<^verbatim>\<open>float\<close> compare equal when they denote
  the same number (\<^verbatim>\<open>0 == 0.0\<close>), so both are the one constructor \<open>JNum\<close>; arithmetic is
  exact (the rounding of IEEE doubles is outside the model). Strings are byte strings and
  letter case is ASCII.
\<close>

datatype json =
    JNull
  | JBool bool
  | JNum real
  | JStr string
  | JList "json list"
  | JDict "(string \<times> json) list"

text \<open>\<^verbatim>\<open>d.get(k, dflt)\<close> on a dict: the default only when the key is absent.\<close>

definition dict_get :: "(string \<times> json) list \<Rightarrow> string \<Rightarrow> json \<Rightarrow> json" where
  "dict_get d k dflt = (case map_of d k of None \<Rightarrow> dflt | Some v \<Rightarrow> v)"

text \<open>Truth value of a Python object, as \<^verbatim>\<open>if x\<close> and \<^verbatim>\<open>x or y\<close> test it.\<close>

fun truthy :: "json \<Rightarrow> bool" where
  "truthy JNull = False"
| "truthy (JBool b) = b"
| "truthy (JNum x) = (x \<noteq> 0)"
| "truthy (JStr s) = (s \<noteq> [])"
| "truthy (JList xs) = (xs \<noteq> [])"
| "truthy (JDict d) = (d \<noteq> [])"

definition py_or :: "json \<Rightarrow> json \<Rightarrow> json" where
  "py_or a b = (if truthy a then a else b)"

text \<open>\<^verbatim>\<open>x == k\<close> for a number \<open>k\<close>: a bool compares as 0 or 1, any other type is unequal.\<close>

fun py_eq_num :: "json \<Rightarrow> real \<Rightarrow> bool" where
  "py_eq_num (JNum x) k = (x = k)"
| "py_eq_num (JBool b) k = ((if b then 1 else 0) = k)"
| "py_eq_num _ k = False"

text \<open>
  \<^verbatim>\<open>x * n\<close> for an int \<open>n\<close>: numbers multiply, sequences repeat, \<^verbatim>\<open>None\<close> and dicts raise
  TypeError (\<open>None\<close>).
\<close>

fun py_mul :: "json \<Rightarrow> nat \<Rightarrow> json option" where
  "py_mul (JNum x) n = Some (JNum (x * real n))"
| "py_mul (JBool b) n = Some (JNum ((if b then 1 else 0) * real n))"
| "py_mul (JStr s) n = Some (JStr (concat (replicate n s)))"
| "py_mul (JList xs) n = Some (JList (concat (replicate n xs)))"
| "py_mul JNull n = None"
| "py_mul (JDict d) n = None"

text \<open>\<^verbatim>\<open>str.lower\<close> and the substring test \<^verbatim>\<open>sub in s\<close>.\<close>

definition lower_char :: "char \<Rightarrow> char" where
  "lower_char c =
     (case map_of (zip ''ABCDEFGHIJKLMNOPQRSTUVWXYZ'' ''abcdefghijklmnopqrstuvwxyz'') c of
        None \<Rightarrow> c
      | Some l \<Rightarrow> l)"

definition py_lower :: "string \<Rightarrow> string" where
  "py_lower s = map lower_char s"

fun contains :: "string \<Rightarrow> string \<Rightarrow> bool" where
  "contains sub [] = (sub = [])"
| "contains sub (c # cs) = (take (length sub) (c # cs) = sub \<or> contains sub cs)"

text \<open>
  \<^verbatim>\<open>str(x)\<close> inside an f-string. A string is itself; how Python prints the other values
  (the digits of a float among them) is a parameter \<open>str_of\<close> of the model.
\<close>

definition py_str :: "(json \<Rightarrow> string) \<Rightarrow> json \<Rightarrow> string" where
  "py_str str_of v = (case v of JStr s \<Rightarrow> s | _ \<Rightarrow> str_of v)"

text \<open>What a \<^verbatim>\<open>for\<close> loop iterates over; \<open>None\<close> is the TypeError of a non-iterable.\<close>

fun iter_items :: "json \<Rightarrow> json list option" where
  "iter_items (JList xs) = Some xs"
| "iter_items (JStr s) = Some (map (\<lambda>c. JStr [c]) s)"
| "iter_items (JDict d) = Some (map (\<lambda>kv. JStr (fst kv)) d)"
| "iter_items _ = None"

section \<open>Nutrition normalizer (nutrition\_api.py)\<close>

text \<open>
  The dict \<^verbatim>\<open>food_info\<close> that both normalizers build has a fixed set of keys. Every
  exception inside a normalizer is caught and turned into the result \<^verbatim>\<open>None\<close>, so the
  functions return an option.
\<close>

record food_info =
  name :: json
  description :: json
  fdc_id :: json
  data_type :: json
  sugar_g :: json
  calories :: json
  carbs_g :: json
  protein_g :: json
  fat_g :: json
  fiber_g :: json
  sodium_mg :: json

subsection \<open>Provider B: \<^verbatim>\<open>_extract_openfoodfacts_data\<close>\<close>

text \<open>
  \<^verbatim>\<open>product_data.get('categories', '').split(',')[0]\<close>: the text before the first comma;
  \<^verbatim>\<open>split\<close> exists on strings only.
\<close>

fun first_category :: "json \<Rightarrow> string option" where
  "first_category (JStr s) = Some (takeWhile (\<lambda>c. c \<noteq> CHR '','') s)"
| "first_category _ = None"

definition off_description :: "(json \<Rightarrow> string) \<Rightarrow> (string \<times> json) list \<Rightarrow> json option" where
  "off_description str_of pd =
     (if truthy (dict_get pd ''brands'' JNull) then
        do {
          cat \<leftarrow> (if truthy (dict_get pd ''categories'' JNull)
                  then first_category (dict_get pd ''categories'' (JStr ''''))
                  else Some '''');
          Some (JStr (py_str str_of (dict_get pd ''brands'' JNull) @ '' - '' @ cat))
        }
      else Some (dict_get pd ''brands'' (JStr '''')))"

fun extract_openfoodfacts_data :: "(json \<Rightarrow> string) \<Rightarrow> json \<Rightarrow> food_info option" where
  "extract_openfoodfacts_data str_of (JDict pd) =
     (case dict_get pd ''nutriments'' (JDict []) of
        JDict nutriments \<Rightarrow>
          do {
            sodium \<leftarrow> py_mul (py_or (dict_get nutriments ''sodium_100g'' (JNum 0)) (JNum 0)) 1000;
            descr \<leftarrow> off_description str_of pd;
            Some \<lparr> name = dict_get pd ''product_name'' (JStr ''Unknown Product''),
                   description = descr,
                   fdc_id = dict_get pd ''code'' (JStr ''''),
                   data_type = JStr ''OpenFoodFacts'',
                   sugar_g = py_or (dict_get nutriments ''sugars_100g'' (JNum 0)) (JNum 0),
                   calories = py_or (dict_get nutriments ''energy-kcal_100g'' (JNum 0)) (JNum 0),
                   carbs_g = py_or (dict_get nutriments ''carbohydrates_100g'' (JNum 0)) (JNum 0),
                   protein_g = py_or (dict_get nutriments ''proteins_100g'' (JNum 0)) (JNum 0),
                   fat_g = py_or (dict_get nutriments ''fat_100g'' (JNum 0)) (JNum 0),
                   fiber_g = py_or (dict_get nutriments ''fiber_100g'' (JNum 0)) (JNum 0),
                   sodium_mg = sodium \<rparr>
          }
      | _ \<Rightarrow> None)"
| "extract_openfoodfacts_data str_of _ = None"

subsection \<open>Provider A: \<^verbatim>\<open>_extract_nutrition_data\<close>\<close>

text \<open>
  The chain of \<^verbatim>\<open>if\<close>/\<^verbatim>\<open>elif\<close> in the loop body, in the source's order: the seven
  identifiers first, then the seven name tests, each name test guarded by
  \<^verbatim>\<open>food_info[...] == 0\<close>. Its arguments are the three locals of the loop body.
\<close>

definition assign_nutrient :: "food_info \<Rightarrow> json \<Rightarrow> string \<Rightarrow> json \<Rightarrow> food_info" where
  "assign_nutrient info nutrient_id nutrient_name amount =
     (if py_eq_num nutrient_id 2000 then info\<lparr>sugar_g := amount\<rparr>
      else if py_eq_num nutrient_id 1008 then info\<lparr>calories := amount\<rparr>
      else if py_eq_num nutrient_id 1005 then info\<lparr>carbs_g := amount\<rparr>
      else if py_eq_num nutrient_id 1003 then info\<lparr>protein_g := amount\<rparr>
      else if py_eq_num nutrient_id 1004 then info\<lparr>fat_g := amount\<rparr>
      else if py_eq_num nutrient_id 1079 then info\<lparr>fiber_g := amount\<rparr>
      else if py_eq_num nutrient_id 1093 then info\<lparr>sodium_mg := amount\<rparr>
      else if contains ''sugar'' nutrient_name \<and> contains ''total'' nutrient_name then
        (if py_eq_num (sugar_g info) 0 then info\<lparr>sugar_g := amount\<rparr> else info)
      else if contains ''energy'' nutrient_name \<or> contains ''calorie'' nutrient_name then
        (if py_eq_num (calories info) 0 then info\<lparr>calories := amount\<rparr> else info)
      else if contains ''carbohydrate'' nutrient_name \<and> contains ''total'' nutrient_name then
        (if py_eq_num (carbs_g info) 0 then info\<lparr>carbs_g := amount\<rparr> else info)
      else if contains ''protein'' nutrient_name then
        (if py_eq_num (protein_g info) 0 then info\<lparr>protein_g := amount\<rparr> else info)
      else if contains ''fat'' nutrient_name
              \<and> (contains ''total'' nutrient_name \<or> contains ''lipid'' nutrient_name) then
        (if py_eq_num (fat_g info) 0 then info\<lparr>fat_g := amount\<rparr> else info)
      else if contains ''fiber'' nutrient_name then
        (if py_eq_num (fiber_g info) 0 then info\<lparr>fiber_g := amount\<rparr> else info)
      else if contains ''sodium'' nutrient_name then
        (if py_eq_num (sodium_mg info) 0 then info\<lparr>sodium_mg := amount\<rparr> else info)
      else info)"

text \<open>
  The loop body for one entry: the entry must be a dict (\<^verbatim>\<open>nutrient.get\<close>) and its
  \<^verbatim>\<open>nutrientName\<close>, when present, a string (\<^verbatim>\<open>.lower()\<close>); anything else raises.
\<close>

fun apply_nutrient :: "food_info \<Rightarrow> json \<Rightarrow> food_info option" where
  "apply_nutrient info (JDict nutrient) =
     (case dict_get nutrient ''nutrientName'' (JStr '''') of
        JStr nm \<Rightarrow>
          Some (assign_nutrient info
                  (dict_get nutrient ''nutrientId'' JNull)
                  (py_lower nm)
                  (dict_get nutrient ''value'' (JNum 0)))
      | _ \<Rightarrow> None)"
| "apply_nutrient info _ = None"

text \<open>The \<^verbatim>\<open>for\<close> loop: an exception in one entry abandons the whole record.\<close>

fun scan_nutrients :: "food_info \<Rightarrow> json list \<Rightarrow> food_info option" where
  "scan_nutrients info [] = Some info"
| "scan_nutrients info (n # ns) =
     (case apply_nutrient info n of
        None \<Rightarrow> None
      | Some info' \<Rightarrow> scan_nutrients info' ns)"

definition initial_food_info :: "(string \<times> json) list \<Rightarrow> food_info" where
  "initial_food_info fd =
     \<lparr> name = dict_get fd ''description'' (JStr ''Unknown Food''),
       description = dict_get fd ''additionalDescriptions'' (JStr ''''),
       fdc_id = dict_get fd ''fdcId'' JNull,
       data_type = dict_get fd ''dataType'' (JStr ''''),
       sugar_g = JNum 0,
       calories = JNum 0,
       carbs_g = JNum 0,
       protein_g = JNum 0,
       fat_g = JNum 0,
       fiber_g = JNum 0,
       sodium_mg = JNum 0 \<rparr>"

fun extract_nutrition_data :: "json \<Rightarrow> food_info option" where
  "extract_nutrition_data (JDict food_data) =
     do {
       nutrients \<leftarrow> iter_items (dict_get food_data ''foodNutrients'' (JList []));
       scan_nutrients (initial_food_info food_data) nutrients
     }"
| "extract_nutrition_data _ = None"

text \<open>
  A view of the loop by target field, used to state what the scan does to each of the
  seven nutrient fields: \<open>id_field\<close> is the identifier half of the chain, \<open>name_field\<close> the
  name half (a later test is reached only when the earlier ones fail), and \<open>field_step\<close>
  is what one entry does to one field.
\<close>

datatype field = Sugar | Calories | Carbs | Protein | Fat | Fiber | Sodium

fun get_field :: "field \<Rightarrow> food_info \<Rightarrow> json" where
  "get_field Sugar = sugar_g"
| "get_field Calories = calories"
| "get_field Carbs = carbs_g"
| "get_field Protein = protein_g"
| "get_field Fat = fat_g"
| "get_field Fiber = fiber_g"
| "get_field Sodium = sodium_mg"

fun set_field :: "field \<Rightarrow> json \<Rightarrow> food_info \<Rightarrow> food_info" where
  "set_field Sugar a info = info\<lparr>sugar_g := a\<rparr>"
| "set_field Calories a info = info\<lparr>calories := a\<rparr>"
| "set_field Carbs a info = info\<lparr>carbs_g := a\<rparr>"
| "set_field Protein a info = info\<lparr>protein_g := a\<rparr>"
| "set_field Fat a info = info\<lparr>fat_g := a\<rparr>"
| "set_field Fiber a info = info\<lparr>fiber_g := a\<rparr>"
| "set_field Sodium a info = info\<lparr>sodium_mg := a\<rparr>"

fun field_id :: "field \<Rightarrow> real" where
  "field_id Sugar = 2000"
| "field_id Calories = 1008"
| "field_id Carbs = 1005"
| "field_id Protein = 1003"
| "field_id Fat = 1004"
| "field_id Fiber = 1079"
| "field_id Sodium = 1093"

definition all_fields :: "field list" where
  "all_fields = [Sugar, Calories, Carbs, Protein, Fat, Fiber, Sodium]"

definition id_field :: "json \<Rightarrow> field option" where
  "id_field nid =
     (if py_eq_num nid 2000 then Some Sugar
      else if py_eq_num nid 1008 then Some Calories
      else if py_eq_num nid 1005 then Some Carbs
      else if py_eq_num nid 1003 then Some Protein
      else if py_eq_num nid 1004 then Some Fat
      else if py_eq_num nid 1079 then Some Fiber
      else if py_eq_num nid 1093 then Some Sodium
      else None)"

definition name_field :: "string \<Rightarrow> field option" where
  "name_field n =
     (if contains ''sugar'' n \<and> contains ''total'' n then Some Sugar
      else if contains ''energy'' n \<or> contains ''calorie'' n then Some Calories
      else if contains ''carbohydrate'' n \<and> contains ''total'' n then Some Carbs
      else if contains ''protein'' n then Some Protein
      else if contains ''fat'' n \<and> (contains ''total'' n \<or> contains ''lipid'' n) then Some Fat
      else if contains ''fiber'' n then Some Fiber
      else if contains ''sodium'' n then Some Sodium
      else None)"

text \<open>The three locals of the loop body, read off an entry.\<close>

fun entry_id :: "json \<Rightarrow> json" where
  "entry_id (JDict n) = dict_get n ''nutrientId'' JNull"
| "entry_id _ = JNull"

fun entry_name :: "json \<Rightarrow> string" where
  "entry_name (JDict n) =
     (case dict_get n ''nutrientName'' (JStr '''') of JStr s \<Rightarrow> py_lower s | _ \<Rightarrow> [])"
| "entry_name _ = []"

fun entry_amount :: "json \<Rightarrow> json" where
  "entry_amount (JDict n) = dict_get n ''value'' (JNum 0)"
| "entry_amount _ = JNum 0"

text \<open>An entry the loop body accepts: a dict whose name, when present, is a string.\<close>

fun entry_ok :: "json \<Rightarrow> bool" where
  "entry_ok (JDict n) =
     (case dict_get n ''nutrientName'' (JStr '''') of JStr s \<Rightarrow> True | _ \<Rightarrow> False)"
| "entry_ok _ = False"

definition by_id :: "field \<Rightarrow> json \<Rightarrow> bool" where
  "by_id f e = py_eq_num (entry_id e) (field_id f)"

definition has_table_id :: "json \<Rightarrow> bool" where
  "has_table_id e = list_ex (\<lambda>f. by_id f e) all_fields"

definition by_name :: "field \<Rightarrow> json \<Rightarrow> bool" where
  "by_name f e = (\<not> has_table_id e \<and> name_field (entry_name e) = Some f)"

definition field_step :: "field \<Rightarrow> json \<Rightarrow> json \<Rightarrow> json" where
  "field_step f v e =
     (if by_id f e then entry_amount e
      else if by_name f e \<and> py_eq_num v 0 then entry_amount e
      else v)"

text \<open>
  The mapping policy in the specification's words, for the sugar field: the entry with
  identifier 2000 if there is one, otherwise the first entry whose lower-cased name
  contains both "sugar" and "total", otherwise the default 0.
\<close>

definition spec_sugar_g :: "json list \<Rightarrow> json" where
  "spec_sugar_g es =
     (case find (\<lambda>e. py_eq_num (entry_id e) 2000) es of
        Some e \<Rightarrow> entry_amount e
      | None \<Rightarrow>
          (case find (\<lambda>e. contains ''sugar'' (entry_name e) \<and> contains ''total'' (entry_name e)) es of
             Some e \<Rightarrow> entry_amount e
           | None \<Rightarrow> JNum 0))"

text \<open>A nutrient field that is a number and not negative.\<close>

fun nonneg_num :: "json \<Rightarrow> bool" where
  "nonneg_num (JNum x) = (0 \<le> x)"
| "nonneg_num _ = False"

definition all_nonneg :: "food_info \<Rightarrow> bool" where
  "all_nonneg info = list_all (\<lambda>f. nonneg_num (get_field f info)) all_fields"

text \<open>A key of a Provider-B nutriment dict that is absent or \<^verbatim>\<open>null\<close>.\<close>

definition absent_or_null :: "(string \<times> json) list \<Rightarrow> string \<Rightarrow> bool" where
  "absent_or_null d k = (map_of d k = None \<or> map_of d k = Some JNull)"

definition off_keys :: "string list" where
  "off_keys = [''sugars_100g'', ''energy-kcal_100g'', ''carbohydrates_100g'', ''proteins_100g'',
               ''fat_100g'', ''fiber_100g'', ''sodium_100g'']"

section \<open>Unit and classification utilities (utils.py)\<close>

text \<open>
  \<^verbatim>\<open>calculate_daily_sugar_percentage\<close> divides by its second argument; Python raises
  ZeroDivisionError for a zero divisor, and nothing in the function catches it.
\<close>

datatype py_error = ZeroDivisionError

definition calculate_daily_sugar_percentage :: "real \<Rightarrow> real \<Rightarrow> py_error + real" where
  "calculate_daily_sugar_percentage sugar_content daily_limit =
     (if daily_limit = 0 then Inl ZeroDivisionError
      else Inr ((sugar_content / daily_limit) * 100))"

section \<open>Tracking store (database.py)\<close>

text \<open>
  The five tables are lists of rows in insertion order; a query without \<^verbatim>\<open>ORDER BY\<close>
  reads a table in that order, and \<^verbatim>\<open>.first()\<close> is the first match. Each table has its own
  counter for the primary key. A column keeps the Python value it was given: the engine's
  type coercion is outside the model, and a column compared with a bound value is compared
  by equality of values. The one comparison that goes through \<^verbatim>\<open>str()\<close> (the external
  identifier of a food item) and \<^verbatim>\<open>str()\<close> itself are parameters, a \<open>runtime\<close>.
  The two clocks of the source are inputs as well: the local day of \<^verbatim>\<open>datetime.now()\<close> and
  the instant of \<^verbatim>\<open>datetime.utcnow\<close>.
\<close>

record runtime =
  ext_id_eq :: "string \<Rightarrow> json \<Rightarrow> bool"
  str_fn :: "json \<Rightarrow> string"

record clock =
  today :: string
  utcnow :: nat

record food_item =
  fi_id :: int
  fi_name :: json
  fi_description :: json
  fi_sugar_g :: json
  fi_calories :: json
  fi_carbs_g :: json
  fi_protein_g :: json
  fi_fat_g :: json
  fi_fiber_g :: json
  fi_sodium_mg :: json
  fi_data_source :: json
  fi_external_id :: string
  fi_created_at :: nat

record tracker_entry =
  dt_id :: int
  dt_user_id :: int
  dt_food_item_id :: "int option"
  dt_food_name :: json
  dt_portion_g :: real
  dt_sugar_g :: real
  dt_calories :: real
  dt_consumed_at :: nat
  dt_date :: string

record favorite_food =
  fav_id :: int
  fav_user_id :: int
  fav_food_item_id :: "int option"
  fav_food_name :: json
  fav_sugar_g :: json
  fav_calories :: json
  fav_food_data :: "(string \<times> json) list"
  fav_added_at :: nat

record sugar_insight =
  si_id :: int
  si_user_id :: int
  si_date :: string
  si_total_sugar_g :: real
  si_total_calories :: real
  si_food_count :: nat
  si_exceeded_limit :: bool
  si_created_at :: nat

record store =
  food_items :: "food_item list"
  daily_tracker :: "tracker_entry list"
  favorite_foods :: "favorite_food list"
  sugar_insights :: "sugar_insight list"
  food_seq :: int
  tracker_seq :: int
  favorite_seq :: int
  insight_seq :: int

definition empty_store :: store where
  "empty_store =
     \<lparr> food_items = [], daily_tracker = [], favorite_foods = [], sugar_insights = [],
       food_seq = 1, tracker_seq = 1, favorite_seq = 1, insight_seq = 1 \<rparr>"

text \<open>The number a value stands for in \<^verbatim>\<open>x / 100\<close>; \<open>None\<close> is the TypeError.\<close>

fun py_num :: "json \<Rightarrow> real option" where
  "py_num (JNum x) = Some x"
| "py_num (JBool b) = Some (if b then 1 else 0)"
| "py_num _ = None"

text \<open>\<^verbatim>\<open>if date is None: date = datetime.now().strftime('%Y-%m-%d')\<close>\<close>

definition date_or_today :: "clock \<Rightarrow> string option \<Rightarrow> string" where
  "date_or_today clk date_arg = (case date_arg of None \<Rightarrow> today clk | Some d \<Rightarrow> d)"

text \<open>An update of the row that \<^verbatim>\<open>.first()\<close> returned.\<close>

fun update_first :: "('a \<Rightarrow> bool) \<Rightarrow> ('a \<Rightarrow> 'a) \<Rightarrow> 'a list \<Rightarrow> 'a list" where
  "update_first P f [] = []"
| "update_first P f (x # xs) = (if P x then f x # xs else x # update_first P f xs)"

text \<open>
  \<^verbatim>\<open>save_food_item\<close>: \<^verbatim>\<open>food_data['name']\<close> raises KeyError when the key is missing, and the
  handler returns \<^verbatim>\<open>None\<close>.
\<close>

definition save_food_item ::
  "runtime \<Rightarrow> clock \<Rightarrow> (string \<times> json) list \<Rightarrow> store \<Rightarrow> int option \<times> store" where
  "save_food_item rt clk food_data s =
     (case map_of food_data ''name'' of
        None \<Rightarrow> (None, s)
      | Some nm \<Rightarrow>
          (case find (\<lambda>r. fi_name r = nm
                          \<and> ext_id_eq rt (fi_external_id r) (dict_get food_data ''fdc_id'' (JStr '''')))
                     (food_items s) of
             Some existing_food \<Rightarrow> (Some (fi_id existing_food), s)
           | None \<Rightarrow>
               (Some (food_seq s),
                s\<lparr> food_items := food_items s @
                     [\<lparr> fi_id = food_seq s,
                        fi_name = nm,
                        fi_description = dict_get food_data ''description'' (JStr ''''),
                        fi_sugar_g = dict_get food_data ''sugar_g'' (JNum 0),
                        fi_calories = dict_get food_data ''calories'' (JNum 0),
                        fi_carbs_g = dict_get food_data ''carbs_g'' (JNum 0),
                        fi_protein_g = dict_get food_data ''protein_g'' (JNum 0),
                        fi_fat_g = dict_get food_data ''fat_g'' (JNum 0),
                        fi_fiber_g = dict_get food_data ''fiber_g'' (JNum 0),
                        fi_sodium_mg = dict_get food_data ''sodium_mg'' (JNum 0),
                        fi_data_source = dict_get food_data ''data_type'' (JStr ''Unknown''),
                        fi_external_id = py_str (str_fn rt) (dict_get food_data ''fdc_id'' (JStr '''')),
                        fi_created_at = utcnow clk \<rparr>],
                   food_seq := food_seq s + 1 \<rparr>)))"

text \<open>
  \<^verbatim>\<open>add_to_daily_tracker\<close>: the food item is saved (and committed) first; the scaled
  snapshot is \<^verbatim>\<open>(value / 100) * portion_g\<close>; an exception after the save returns
  \<^verbatim>\<open>False\<close> and adds no tracker row.
\<close>

definition add_to_daily_tracker ::
  "runtime \<Rightarrow> clock \<Rightarrow> (string \<times> json) list \<Rightarrow> real \<Rightarrow> int \<Rightarrow> store \<Rightarrow> bool \<times> store" where
  "add_to_daily_tracker rt clk food_data portion_g user_id s =
     (case save_food_item rt clk food_data s of (food_id, s1) \<Rightarrow>
        (case py_num (dict_get food_data ''sugar_g'' (JNum 0)) of
           None \<Rightarrow> (False, s1)
         | Some sugar \<Rightarrow>
             (case py_num (dict_get food_data ''calories'' (JNum 0)) of
                None \<Rightarrow> (False, s1)
              | Some cal \<Rightarrow>
                  (case map_of food_data ''name'' of
                     None \<Rightarrow> (False, s1)
                   | Some nm \<Rightarrow>
                       (True,
                        s1\<lparr> daily_tracker := daily_tracker s1 @
                              [\<lparr> dt_id = tracker_seq s1,
                                 dt_user_id = user_id,
                                 dt_food_item_id = food_id,
                                 dt_food_name = nm,
                                 dt_portion_g = portion_g,
                                 dt_sugar_g = (sugar / 100) * portion_g,
                                 dt_calories = (cal / 100) * portion_g,
                                 dt_consumed_at = utcnow clk,
                                 dt_date = today clk \<rparr>],
                            tracker_seq := tracker_seq s1 + 1 \<rparr>)))))"

definition clear_daily_tracker :: "clock \<Rightarrow> string option \<Rightarrow> int \<Rightarrow> store \<Rightarrow> bool \<times> store" where
  "clear_daily_tracker clk date_arg user_id s =
     (True,
      s\<lparr> daily_tracker :=
           filter (\<lambda>e. \<not> (dt_user_id e = user_id \<and> dt_date e = date_or_today clk date_arg))
                  (daily_tracker s) \<rparr>)"

text \<open>
  \<^verbatim>\<open>add_to_favorites\<close>: the duplicate test comes before \<^verbatim>\<open>save_food_item\<close>; the stored blob
  \<^verbatim>\<open>json.dumps(food_data)\<close> is kept as the dict it encodes.
\<close>

definition add_to_favorites ::
  "runtime \<Rightarrow> clock \<Rightarrow> (string \<times> json) list \<Rightarrow> int \<Rightarrow> store \<Rightarrow> bool \<times> store" where
  "add_to_favorites rt clk food_data user_id s =
     (case map_of food_data ''name'' of
        None \<Rightarrow> (False, s)
      | Some nm \<Rightarrow>
          (case find (\<lambda>f. fav_user_id f = user_id \<and> fav_food_name f = nm) (favorite_foods s) of
             Some existing \<Rightarrow> (False, s)
           | None \<Rightarrow>
               (case save_food_item rt clk food_data s of (food_id, s1) \<Rightarrow>
                  (True,
                   s1\<lparr> favorite_foods := favorite_foods s1 @
                         [\<lparr> fav_id = favorite_seq s1,
                            fav_user_id = user_id,
                            fav_food_item_id = food_id,
                            fav_food_name = nm,
                            fav_sugar_g = dict_get food_data ''sugar_g'' (JNum 0),
                            fav_calories = dict_get food_data ''calories'' (JNum 0),
                            fav_food_data = food_data,
                            fav_added_at = utcnow clk \<rparr>],
                       favorite_seq := favorite_seq s1 + 1 \<rparr>))))"

text \<open>
  \<^verbatim>\<open>save_daily_insight\<close>: nothing is written when the day has no tracker entries; otherwise
  the totals are recomputed from the entries and the row of \<open>(user_id, date)\<close> is updated,
  or created when there is none.
\<close>

definition save_daily_insight :: "clock \<Rightarrow> string option \<Rightarrow> int \<Rightarrow> store \<Rightarrow> bool \<times> store" where
  "save_daily_insight clk date_arg user_id s =
     (let d = date_or_today clk date_arg;
          entries = filter (\<lambda>e. dt_user_id e = user_id \<and> dt_date e = d) (daily_tracker s)
      in if entries = [] then (False, s)
         else
           (let total_sugar = sum_list (map dt_sugar_g entries);
                total_cal = sum_list (map dt_calories entries);
                cnt = length entries;
                exceeded = (total_sugar > 25)
            in case find (\<lambda>r. si_user_id r = user_id \<and> si_date r = d) (sugar_insights s) of
                 Some existing \<Rightarrow>
                   (True,
                    s\<lparr> sugar_insights :=
                         update_first (\<lambda>r. si_user_id r = user_id \<and> si_date r = d)
                           (\<lambda>r. r\<lparr> si_total_sugar_g := total_sugar,
                                    si_total_calories := total_cal,
                                    si_food_count := cnt,
                                    si_exceeded_limit := exceeded \<rparr>)
                           (sugar_insights s) \<rparr>)
               | None \<Rightarrow>
                   (True,
                    s\<lparr> sugar_insights := sugar_insights s @
                          [\<lparr> si_id = insight_seq s,
                             si_user_id = user_id,
                             si_date = d,
                             si_total_sugar_g = total_sugar,
                             si_total_calories = total_cal,
                             si_food_count = cnt,
                             si_exceeded_limit = exceeded,
                             si_created_at = utcnow clk \<rparr>],
                        insight_seq := insight_seq s + 1 \<rparr>)))"

text \<open>
  \<^verbatim>\<open>get_weekly_insights\<close>: the rows of the user by date descending (dates are
  \<^verbatim>\<open>YYYY-MM-DD\<close> strings, compared as strings), cut by \<^verbatim>\<open>LIMIT days\<close>. A negative limit is
  an error of the engine, and the handler returns the empty list.
\<close>

record insight_summary =
  date :: string
  total_sugar_g :: real
  total_calories :: real
  food_count :: nat
  exceeded_limit :: bool

definition summary_of :: "sugar_insight \<Rightarrow> insight_summary" where
  "summary_of r =
     \<lparr> date = si_date r,
       total_sugar_g = si_total_sugar_g r,
       total_calories = si_total_calories r,
       food_count = si_food_count r,
       exceeded_limit = si_exceeded_limit r \<rparr>"

definition get_weekly_insights :: "int \<Rightarrow> int \<Rightarrow> store \<Rightarrow> insight_summary list" where
  "get_weekly_insights user_id days s =
     (if days < 0 then []
      else map summary_of
             (take (nat days)
                (rev (sort_key si_date
                        (filter (\<lambda>r. si_user_id r = user_id) (sugar_insights s))))))"

text \<open>
  The invariant of the insight table, and a run of recomputations (each with its own
  clock, date argument and user).
\<close>

definition insight_key :: "sugar_insight \<Rightarrow> int \<times> string" where
  "insight_key r = (si_user_id r, si_date r)"

definition unique_insights :: "store \<Rightarrow> bool" where
  "unique_insights s = distinct (map insight_key (sugar_insights s))"

fun recompute_all :: "(clock \<times> string option \<times> int) list \<Rightarrow> store \<Rightarrow> store" where
  "recompute_all [] s = s"
| "recompute_all ((clk, date_arg, user_id) # cs) s =
     recompute_all cs (snd (save_daily_insight clk date_arg user_id s))"

section \<open>Auxiliary notions and example data\<close>

text \<open>
  The tracker entries of one user and day, the assignment \<^verbatim>\<open>save_daily_insight\<close> makes to an
  insight row, and the two stages of the query of \<^verbatim>\<open>get_weekly_insights\<close>.
\<close>

definition day_entries :: "int \<Rightarrow> string \<Rightarrow> store \<Rightarrow> tracker_entry list" where
  "day_entries u d s = filter (\<lambda>e. dt_user_id e = u \<and> dt_date e = d) (daily_tracker s)"

definition set_totals :: "tracker_entry list \<Rightarrow> sugar_insight \<Rightarrow> sugar_insight" where
  "set_totals es r =
     r\<lparr> si_total_sugar_g := sum_list (map dt_sugar_g es),
        si_total_calories := sum_list (map dt_calories es),
        si_food_count := length es,
        si_exceeded_limit := (sum_list (map dt_sugar_g es) > 25) \<rparr>"

definition user_rows :: "int \<Rightarrow> store \<Rightarrow> sugar_insight list" where
  "user_rows u s = filter (\<lambda>r. si_user_id r = u) (sugar_insights s)"

definition by_date_desc :: "sugar_insight list \<Rightarrow> sugar_insight list" where
  "by_date_desc rows = rev (sort_key si_date rows)"

text \<open>Concrete stores and payloads on which the theorems are exercised.\<close>

definition plain_runtime :: runtime where
  "plain_runtime = \<lparr> ext_id_eq = (\<lambda>col v. v = JStr col), str_fn = (\<lambda>v. ''?'') \<rparr>"

definition may_first :: clock where
  "may_first = \<lparr> today = ''2024-05-01'', utcnow = 100 \<rparr>"

definition may_first_later :: clock where
  "may_first_later = \<lparr> today = ''2024-05-01'', utcnow = 160 \<rparr>"

definition apple :: "(string \<times> json) list" where
  "apple = [(''name'', JStr ''Apple''), (''fdc_id'', JNum 171688), (''sugar_g'', JNum 10.4),
            (''calories'', JNum 52)]"

definition apple_favorite :: favorite_food where
  "apple_favorite =
     \<lparr> fav_id = 1, fav_user_id = 1, fav_food_item_id = None, fav_food_name = JStr ''Apple'',
       fav_sugar_g = JNum 10.4, fav_calories = JNum 52, fav_food_data = apple, fav_added_at = 3 \<rparr>"

definition cola :: "(string \<times> json) list" where
  "cola = [(''name'', JStr ''Coca Cola''), (''sugar_g'', JNum 10.6), (''calories'', JNum 42)]"

definition cola_entry :: tracker_entry where
  "cola_entry =
     \<lparr> dt_id = 1, dt_user_id = 1, dt_food_item_id = Some 1, dt_food_name = JStr ''Coca Cola'',
       dt_portion_g = 250, dt_sugar_g = 26.5, dt_calories = 105, dt_consumed_at = 100,
       dt_date = ''2024-05-01'' \<rparr>"

definition cola_insight :: sugar_insight where
  "cola_insight =
     \<lparr> si_id = 1, si_user_id = 1, si_date = ''2024-05-01'', si_total_sugar_g = 26.5,
       si_total_calories = 105, si_food_count = 1, si_exceeded_limit = True,
       si_created_at = 100 \<rparr>"

definition tracked_store :: store where
  "tracked_store = empty_store\<lparr> daily_tracker := [cola_entry], tracker_seq := 2 \<rparr>"

definition insight_store :: store where
  "insight_store = tracked_store\<lparr> sugar_insights := [cola_insight], insight_seq := 2 \<rparr>"

definition cola_entry_again :: tracker_entry where
  "cola_entry_again =
     \<lparr> dt_id = 2, dt_user_id = 1, dt_food_item_id = Some 1, dt_food_name = JStr ''Coca Cola'',
       dt_portion_g = 250, dt_sugar_g = 26.5, dt_calories = 105, dt_consumed_at = 130,
       dt_date = ''2024-05-01'' \<rparr>"

definition stale_store :: store where
  "stale_store = insight_store\<lparr> daily_tracker := [cola_entry, cola_entry_again], tracker_seq := 3 \<rparr>"

definition day_row :: "int \<Rightarrow> int \<Rightarrow> string \<Rightarrow> real \<Rightarrow> sugar_insight" where
  "day_row i u d sugar =
     \<lparr> si_id = i, si_user_id = u, si_date = d, si_total_sugar_g = sugar, si_total_calories = 0,
       si_food_count = 1, si_exceeded_limit = (sugar > 25), si_created_at = 0 \<rparr>"

definition three_day_store :: store where
  "three_day_store =
     empty_store\<lparr> sugar_insights :=
       [day_row 1 1 ''2024-05-01'' 26.5, day_row 2 2 ''2024-05-02'' 3, day_row 3 1 ''2024-05-03'' 12,
        day_row 4 1 ''2024-05-02'' 30], insight_seq := 5 \<rparr>"

text \<open>Provider payloads.\<close>

definition sugar_by_id_payload :: "(string \<times> json) list" where
  "sugar_by_id_payload =
     [(''description'', JStr ''Apple, raw''),
      (''foodNutrients'',
        JList [JDict [(''nutrientId'', JNum 1003), (''nutrientName'', JStr ''Protein''), (''value'', JNum 0.3)],
               JDict [(''nutrientId'', JNum 2000), (''nutrientName'', JStr ''Sugars''), (''value'', JNum 12.5)]])]"

definition sugar_by_name_payload :: "(string \<times> json) list" where
  "sugar_by_name_payload =
     [(''description'', JStr ''Juice''),
      (''foodNutrients'',
        JList [JDict [(''nutrientId'', JNum 1003), (''nutrientName'', JStr ''Protein''), (''value'', JNum 0.3)],
               JDict [(''nutrientName'', JStr ''Total Sugars''), (''value'', JNum 8)]])]"

definition zero_id_then_name :: "json list" where
  "zero_id_then_name =
     [JDict [(''nutrientId'', JNum 2000), (''nutrientName'', JStr ''Sugars''), (''value'', JNum 0)],
      JDict [(''nutrientId'', JNum 1063), (''nutrientName'', JStr ''Sugars, Total NLEA''), (''value'', JNum 8)]]"

definition zero_name_then_name :: "json list" where
  "zero_name_then_name =
     [JDict [(''nutrientName'', JStr ''Total Sugars''), (''value'', JNum 0)],
      JDict [(''nutrientName'', JStr ''Sugars, total including NLEA''), (''value'', JNum 3)]]"

definition named_with_other_id :: "json list" where
  "named_with_other_id =
     [JDict [(''nutrientId'', JNum 1005), (''nutrientName'', JStr ''Carbohydrate, total (incl. sugars)''),
             (''value'', JNum 20)],
      JDict [(''nutrientName'', JStr ''Total Sugars''), (''value'', JNum 8)]]"

definition crackers :: "(string \<times> json) list" where
  "crackers =
     [(''product_name'', JStr ''Crackers''),
      (''nutriments'', JDict [(''sodium_100g'', JNum 0.4), (''sugars_100g'', JNull)])]"

definition negative_sugar_usda :: json where
  "negative_sugar_usda =
     JDict [(''description'', JStr ''Test food''),
            (''foodNutrients'',
              JList [JDict [(''nutrientId'', JNum 2000), (''nutrientName'', JStr ''Total Sugars''),
                            (''value'', JNum (- 1))]])]"

definition negative_sugar_off :: json where
  "negative_sugar_off =
     JDict [(''product_name'', JStr ''Test product''),
            (''nutriments'', JDict [(''sugars_100g'', JNum (- 5))])]"

section \<open>Provider B: unit conversion and defaults\<close>

lemma py_or_zero_absent: "absent_or_null d k \<Longrightarrow> py_or (dict_get d k (JNum 0)) (JNum 0) = JNum 0"
  by (auto simp: absent_or_null_def dict_get_def py_or_def)

lemma py_or_zero_num: "map_of d k = Some (JNum x) \<Longrightarrow> py_or (dict_get d k (JNum 0)) (JNum 0) = JNum x"
  by (simp add: dict_get_def py_or_def)

text \<open>
  C4. For a Provider-B payload whose \<^verbatim>\<open>nutriments\<close> is a dict (or absent) and whose
  description can be built, the record is produced with \<open>sodium_mg\<close> equal to 1000 times a
  numeric \<^verbatim>\<open>sodium_100g\<close>, and equal to 0 when that key is absent or null; 0.4 gives 400.
  Each of the other six direct lookups is 0 when its key is absent or null.
\<close>

theorem openfoodfacts_sodium_conversion:
  assumes nut: "dict_get pd ''nutriments'' (JDict []) = JDict nut"
    and descr: "off_description str_of pd = Some d"
  shows "(map_of nut ''sodium_100g'' = Some (JNum x) \<longrightarrow>
            map_option sodium_mg (extract_openfoodfacts_data str_of (JDict pd)) = Some (JNum (1000 * x)))
       \<and> (absent_or_null nut ''sodium_100g'' \<longrightarrow>
            map_option sodium_mg (extract_openfoodfacts_data str_of (JDict pd)) = Some (JNum 0))
       \<and> (\<forall>info. extract_openfoodfacts_data str_of (JDict pd) = Some info \<longrightarrow>
            (absent_or_null nut ''sugars_100g'' \<longrightarrow> sugar_g info = JNum 0)
          \<and> (absent_or_null nut ''energy-kcal_100g'' \<longrightarrow> calories info = JNum 0)
          \<and> (absent_or_null nut ''carbohydrates_100g'' \<longrightarrow> carbs_g info = JNum 0)
          \<and> (absent_or_null nut ''proteins_100g'' \<longrightarrow> protein_g info = JNum 0)
          \<and> (absent_or_null nut ''fat_100g'' \<longrightarrow> fat_g info = JNum 0)
          \<and> (absent_or_null nut ''fiber_100g'' \<longrightarrow> fiber_g info = JNum 0))"
proof (intro conjI impI allI)
  assume "map_of nut ''sodium_100g'' = Some (JNum x)"
  then show "map_option sodium_mg (extract_openfoodfacts_data str_of (JDict pd)) = Some (JNum (1000 * x))"
    using nut descr by (simp add: py_or_zero_num)
next
  assume "absent_or_null nut ''sodium_100g''"
  then show "map_option sodium_mg (extract_openfoodfacts_data str_of (JDict pd)) = Some (JNum 0)"
    using nut descr by (simp add: py_or_zero_absent)
next
  fix info assume "extract_openfoodfacts_data str_of (JDict pd) = Some info" "absent_or_null nut ''sugars_100g''"
  then show "sugar_g info = JNum 0"
    using nut descr by (auto simp: py_or_zero_absent split: Option.bind_splits)
next
  fix info assume "extract_openfoodfacts_data str_of (JDict pd) = Some info" "absent_or_null nut ''energy-kcal_100g''"
  then show "calories info = JNum 0"
    using nut descr by (auto simp: py_or_zero_absent split: Option.bind_splits)
next
  fix info assume "extract_openfoodfacts_data str_of (JDict pd) = Some info" "absent_or_null nut ''carbohydrates_100g''"
  then show "carbs_g info = JNum 0"
    using nut descr by (auto simp: py_or_zero_absent split: Option.bind_splits)
next
  fix info assume "extract_openfoodfacts_data str_of (JDict pd) = Some info" "absent_or_null nut ''proteins_100g''"
  then show "protein_g info = JNum 0"
    using nut descr by (auto simp: py_or_zero_absent split: Option.bind_splits)
next
  fix info assume "extract_openfoodfacts_data str_of (JDict pd) = Some info" "absent_or_null nut ''fat_100g''"
  then show "fat_g info = JNum 0"
    using nut descr by (auto simp: py_or_zero_absent split: Option.bind_splits)
next
  fix info assume "extract_openfoodfacts_data str_of (JDict pd) = Some info" "absent_or_null nut ''fiber_100g''"
  then show "fiber_g info = JNum 0"
    using nut descr by (auto simp: py_or_zero_absent split: Option.bind_splits)
qed

theorem openfoodfacts_sodium_conversion_witness:
  "map_option sodium_mg
     (extract_openfoodfacts_data (\<lambda>v. [])
        (JDict [(''product_name'', JStr ''Crackers''),
                (''nutriments'', JDict [(''sodium_100g'', JNum 0.4), (''sugars_100g'', JNull)])]))
   = Some (JNum 400)
   \<and> map_option sugar_g
     (extract_openfoodfacts_data (\<lambda>v. [])
        (JDict [(''product_name'', JStr ''Crackers''),
                (''nutriments'', JDict [(''sodium_100g'', JNum 0.4), (''sugars_100g'', JNull)])]))
   = Some (JNum 0)"
proof -
  let ?pd = "[(''product_name'', JStr ''Crackers''),
              (''nutriments'', JDict [(''sodium_100g'', JNum 0.4), (''sugars_100g'', JNull)])]"
  let ?nut = "[(''sodium_100g'', JNum 0.4), (''sugars_100g'', JNull)]"
  have nut: "dict_get ?pd ''nutriments'' (JDict []) = JDict ?nut"
    by (simp add: dict_get_def)
  have descr: "off_description (\<lambda>v. []) ?pd = Some (JStr [])"
    by (simp add: off_description_def dict_get_def)
  have so: "map_of ?nut ''sodium_100g'' = Some (JNum 0.4)" by simp
  have su: "absent_or_null ?nut ''sugars_100g''" by (simp add: absent_or_null_def)
  note T = openfoodfacts_sodium_conversion [OF nut descr, of "0.4"]
  from T so have A: "map_option sodium_mg (extract_openfoodfacts_data (\<lambda>v. []) (JDict ?pd)) = Some (JNum (1000 * 0.4))"
    by blast
  then obtain info where I: "extract_openfoodfacts_data (\<lambda>v. []) (JDict ?pd) = Some info"
    by blast
  with T su have "sugar_g info = JNum 0" by blast
  with I A show ?thesis by simp
qed

section \<open>Percentage of the daily limit\<close>

text \<open>
  C7, as amended. \<^verbatim>\<open>calculate_daily_sugar_percentage\<close> returns
  \<open>amount / limit * 100\<close> for a non-zero limit; for the limit 0 the division is not
  guarded and the call raises ZeroDivisionError.
\<close>

theorem percentage_of_daily_limit:
  "(daily_limit \<noteq> 0 \<longrightarrow>
      calculate_daily_sugar_percentage amount daily_limit = Inr (amount / daily_limit * 100))
   \<and> calculate_daily_sugar_percentage amount 0 = Inl ZeroDivisionError"
  by (simp add: calculate_daily_sugar_percentage_def)

theorem percentage_of_daily_limit_witness:
  "(25::real) \<noteq> 0 \<and> calculate_daily_sugar_percentage 12.5 25 = Inr 50"
  using percentage_of_daily_limit [of 25 "12.5"] by simp

text \<open>
  C7 as stated (a zero limit does not crash) fails: the call with limit 0 raises.
\<close>

theorem percentage_zero_limit_counterexample:
  "calculate_daily_sugar_percentage 10 0 = Inl ZeroDivisionError"
  by (simp add: calculate_daily_sugar_percentage_def)

section \<open>Tracking store: frame and upsert lemmas\<close>

lemma save_food_item_frame:
  "favorite_foods (snd (save_food_item rt clk fd s)) = favorite_foods s"
  "daily_tracker (snd (save_food_item rt clk fd s)) = daily_tracker s"
  "sugar_insights (snd (save_food_item rt clk fd s)) = sugar_insights s"
  "favorite_seq (snd (save_food_item rt clk fd s)) = favorite_seq s"
  "tracker_seq (snd (save_food_item rt clk fd s)) = tracker_seq s"
  by (simp_all add: save_food_item_def split: option.split)

lemma find_Some_iff_ex: "(\<exists>y. find P xs = Some y) \<longleftrightarrow> (\<exists>x\<in>set xs. P x)"
  by (induction xs) auto

lemma update_first_idem:
  assumes "\<And>x. P x \<Longrightarrow> P (f x)" and "\<And>x. P x \<Longrightarrow> f (f x) = f x"
  shows "update_first P f (update_first P f xs) = update_first P f xs"
  using assms by (induction xs) auto

lemma update_first_append_new:
  assumes "\<forall>x\<in>set xs. \<not> P x" and "P y"
  shows "update_first P f (xs @ [y]) = xs @ [f y]"
  using assms by (induction xs) auto

lemma find_update_first:
  assumes "\<And>x. P x \<Longrightarrow> P (f x)" and "find P xs = Some y"
  shows "find P (update_first P f xs) = Some (f y)"
  using assms by (induction xs) (auto split: if_splits)

lemma find_append_new:
  assumes "\<forall>x\<in>set xs. \<not> P x" and "P y"
  shows "find P (xs @ [y]) = Some y"
  using assms by (induction xs) auto

lemma map_update_first:
  assumes "\<And>x. g (f x) = g x"
  shows "map g (update_first P f xs) = map g xs"
  using assms by (induction xs) auto

lemma save_daily_insight_empty:
  assumes "filter (\<lambda>e. dt_user_id e = u \<and> dt_date e = date_or_today clk dt) (daily_tracker s) = []"
  shows "save_daily_insight clk dt u s = (False, s)"
  using assms by (simp add: save_daily_insight_def)

lemma set_totals_fun:
  "set_totals es =
     (\<lambda>r. r\<lparr> si_total_sugar_g := sum_list (map dt_sugar_g es),
              si_total_calories := sum_list (map dt_calories es),
              si_food_count := length es,
              si_exceeded_limit := (25 < sum_list (map dt_sugar_g es)) \<rparr>)"
  by (rule ext) (simp add: set_totals_def)

lemma save_daily_insight_update:
  assumes "day_entries u (date_or_today clk dt) s \<noteq> []"
    and "find (\<lambda>r. si_user_id r = u \<and> si_date r = date_or_today clk dt) (sugar_insights s) = Some x"
  shows "save_daily_insight clk dt u s =
           (True, s\<lparr>sugar_insights :=
                      update_first (\<lambda>r. si_user_id r = u \<and> si_date r = date_or_today clk dt)
                        (set_totals (day_entries u (date_or_today clk dt) s)) (sugar_insights s)\<rparr>)"
  using assms by (simp add: save_daily_insight_def day_entries_def set_totals_fun Let_def)

lemma save_daily_insight_insert:
  assumes "day_entries u (date_or_today clk dt) s \<noteq> []"
    and "find (\<lambda>r. si_user_id r = u \<and> si_date r = date_or_today clk dt) (sugar_insights s) = None"
  shows "save_daily_insight clk dt u s =
           (True, s\<lparr>sugar_insights := sugar_insights s @
                      [set_totals (day_entries u (date_or_today clk dt) s)
                         \<lparr> si_id = insight_seq s, si_user_id = u, si_date = date_or_today clk dt,
                           si_total_sugar_g = 0, si_total_calories = 0, si_food_count = 0,
                           si_exceeded_limit = False, si_created_at = utcnow clk \<rparr>],
                    insight_seq := insight_seq s + 1\<rparr>)"
  using assms by (simp add: save_daily_insight_def day_entries_def set_totals_def Let_def)

lemma set_totals_key [simp]:
  "si_user_id (set_totals es r) = si_user_id r" "si_date (set_totals es r) = si_date r"
  "si_id (set_totals es r) = si_id r" "si_created_at (set_totals es r) = si_created_at r"
  by (simp_all add: set_totals_def)

lemma set_totals_idem [simp]: "set_totals es (set_totals es r) = set_totals es r"
  by (simp add: set_totals_def)

lemma day_entries_insights [simp]:
  "day_entries u d (s\<lparr>sugar_insights := xs\<rparr>) = day_entries u d s"
  "day_entries u d (s\<lparr>sugar_insights := xs, insight_seq := n\<rparr>) = day_entries u d s"
  by (simp_all add: day_entries_def)

lemma save_daily_insight_idem:
  assumes "date_or_today clkb dtb = date_or_today clka dta"
  shows "save_daily_insight clkb dtb u (snd (save_daily_insight clka dta u s))
         = (fst (save_daily_insight clka dta u s), snd (save_daily_insight clka dta u s))"
proof -
  let ?d = "date_or_today clka dta"
  let ?K = "\<lambda>r. si_user_id r = u \<and> si_date r = ?d"
  let ?es = "day_entries u ?d s"
  show ?thesis
  proof (cases "?es = []")
    case True
    then have "save_daily_insight clka dta u s = (False, s)"
      by (simp add: save_daily_insight_empty day_entries_def)
    moreover from True assms have "save_daily_insight clkb dtb u s = (False, s)"
      by (simp add: save_daily_insight_empty day_entries_def)
    ultimately show ?thesis by simp
  next
    case False
    show ?thesis
    proof (cases "find ?K (sugar_insights s)")
      case None
      let ?new = "set_totals ?es \<lparr> si_id = insight_seq s, si_user_id = u, si_date = ?d,
                           si_total_sugar_g = 0, si_total_calories = 0, si_food_count = 0,
                           si_exceeded_limit = False, si_created_at = utcnow clka \<rparr>"
      let ?s1 = "s\<lparr>sugar_insights := sugar_insights s @ [?new], insight_seq := insight_seq s + 1\<rparr>"
      from False None have 1: "save_daily_insight clka dta u s = (True, ?s1)"
        by (rule save_daily_insight_insert)
      from None have no: "\<forall>x\<in>set (sugar_insights s). \<not> ?K x" by (simp add: find_None_iff)
      have k: "?K ?new" by simp
      have f: "find (\<lambda>r. si_user_id r = u \<and> si_date r = date_or_today clkb dtb) (sugar_insights ?s1) = Some ?new"
        using find_append_new [OF no k] assms by simp
      have e: "day_entries u (date_or_today clkb dtb) ?s1 \<noteq> []" using False assms by simp
      have "save_daily_insight clkb dtb u ?s1 = (True, ?s1)"
        unfolding save_daily_insight_update [OF e f]
        using update_first_append_new [OF no k, of "set_totals ?es"] assms by simp
      with 1 show ?thesis by simp
    next
      case (Some x)
      let ?s1 = "s\<lparr>sugar_insights := update_first ?K (set_totals ?es) (sugar_insights s)\<rparr>"
      from False Some have 1: "save_daily_insight clka dta u s = (True, ?s1)"
        by (rule save_daily_insight_update)
      have f: "find (\<lambda>r. si_user_id r = u \<and> si_date r = date_or_today clkb dtb) (sugar_insights ?s1)
               = Some (set_totals ?es x)"
        using find_update_first [of ?K "set_totals ?es", OF _ Some] assms by simp
      have e: "day_entries u (date_or_today clkb dtb) ?s1 \<noteq> []" using False assms by simp
      have "save_daily_insight clkb dtb u ?s1 = (True, ?s1)"
        unfolding save_daily_insight_update [OF e f]
        using update_first_idem [of ?K "set_totals ?es" "sugar_insights s"] assms by simp
      with 1 show ?thesis by simp
    qed
  qed
qed

lemma save_daily_insight_keys:
  assumes "\<exists>r\<in>set (sugar_insights s). si_user_id r = u \<and> si_date r = date_or_today clk dt"
  shows "map insight_key (sugar_insights (snd (save_daily_insight clk dt u s))) = map insight_key (sugar_insights s)
       \<and> map si_id (sugar_insights (snd (save_daily_insight clk dt u s))) = map si_id (sugar_insights s)"
proof (cases "day_entries u (date_or_today clk dt) s = []")
  case True
  then show ?thesis by (simp add: save_daily_insight_empty day_entries_def)
next
  case False
  from assms obtain x where
    "find (\<lambda>r. si_user_id r = u \<and> si_date r = date_or_today clk dt) (sugar_insights s) = Some x"
    using find_Some_iff_ex [of "\<lambda>r. si_user_id r = u \<and> si_date r = date_or_today clk dt" "sugar_insights s"]
    by blast
  from save_daily_insight_update [OF False this] show ?thesis
    by (simp add: map_update_first insight_key_def)
qed

lemma save_daily_insight_unique:
  assumes "unique_insights s"
  shows "unique_insights (snd (save_daily_insight clk dt u s))"
proof (cases "day_entries u (date_or_today clk dt) s = []")
  case True
  with assms show ?thesis by (simp add: save_daily_insight_empty day_entries_def)
next
  case False
  show ?thesis
  proof (cases "find (\<lambda>r. si_user_id r = u \<and> si_date r = date_or_today clk dt) (sugar_insights s)")
    case None
    then have "(u, date_or_today clk dt) \<notin> set (map insight_key (sugar_insights s))"
      by (auto simp: find_None_iff insight_key_def)
    with assms save_daily_insight_insert [OF False None] show ?thesis
      by (simp add: unique_insights_def insight_key_def)
  next
    case (Some x)
    with assms save_daily_insight_update [OF False Some] show ?thesis
      by (simp add: unique_insights_def map_update_first insight_key_def)
  qed
qed

lemma recompute_all_unique:
  "unique_insights s \<Longrightarrow> unique_insights (recompute_all cs s)"
  by (induction cs s rule: recompute_all.induct) (simp_all add: save_daily_insight_unique)

lemma day_entries_nonempty_row:
  assumes "day_entries u (date_or_today clk dt) s \<noteq> []"
  shows "\<exists>s2 r. save_daily_insight clk dt u s = (True, s2)
           \<and> find (\<lambda>r. si_user_id r = u \<and> si_date r = date_or_today clk dt) (sugar_insights s2) = Some r
           \<and> (\<exists>r0. r = set_totals (day_entries u (date_or_today clk dt) s) r0)"
proof (cases "find (\<lambda>r. si_user_id r = u \<and> si_date r = date_or_today clk dt) (sugar_insights s)")
  case None
  then have no: "\<forall>x\<in>set (sugar_insights s). \<not> (si_user_id x = u \<and> si_date x = date_or_today clk dt)"
    by (simp add: find_None_iff)
  show ?thesis
    unfolding save_daily_insight_insert [OF assms None]
    using find_append_new [OF no, of "set_totals (day_entries u (date_or_today clk dt) s)
                         \<lparr> si_id = insight_seq s, si_user_id = u, si_date = date_or_today clk dt,
                           si_total_sugar_g = 0, si_total_calories = 0, si_food_count = 0,
                           si_exceeded_limit = False, si_created_at = utcnow clk \<rparr>"]
    by auto
next
  case (Some x)
  show ?thesis
    unfolding save_daily_insight_update [OF assms Some]
    using find_update_first [of "\<lambda>r. si_user_id r = u \<and> si_date r = date_or_today clk dt"
        "set_totals (day_entries u (date_or_today clk dt) s)", OF _ Some]
    by auto
qed

lemma update_first_unique:
  assumes "distinct (map g xs)" and "\<And>x. P x \<longleftrightarrow> g x = k"
  shows "update_first P f xs = map (\<lambda>r. if P r then f r else r) xs"
  using assms(1)
proof (induction xs)
  case Nil
  then show ?case by simp
next
  case (Cons x xs)
  show ?case
  proof (cases "P x")
    case True
    with Cons.prems assms(2) have "\<forall>y\<in>set xs. \<not> P y" by (metis distinct.simps(2) image_eqI list.simps(9) list.set_map)
    then have "map (\<lambda>r. if P r then f r else r) xs = xs" by (simp add: map_idI)
    with True show ?thesis by simp
  next
    case False
    with Cons show ?thesis by simp
  qed
qed

lemma filter_update_first:
  assumes "\<And>x. P x \<Longrightarrow> P (f x)"
  shows "filter (\<lambda>r. \<not> P r) (update_first P f xs) = filter (\<lambda>r. \<not> P r) xs"
  using assms by (induction xs) auto

lemma save_daily_insight_written:
  assumes "day_entries u (date_or_today clk dt) s \<noteq> []"
  shows "\<exists>s' r. save_daily_insight clk dt u s = (True, s')
      \<and> find (\<lambda>r. si_user_id r = u \<and> si_date r = date_or_today clk dt) (sugar_insights s') = Some r
      \<and> si_total_sugar_g r = sum_list (map dt_sugar_g (day_entries u (date_or_today clk dt) s))
      \<and> si_total_calories r = sum_list (map dt_calories (day_entries u (date_or_today clk dt) s))
      \<and> si_food_count r = length (day_entries u (date_or_today clk dt) s)
      \<and> si_exceeded_limit r = (sum_list (map dt_sugar_g (day_entries u (date_or_today clk dt) s)) > 25)
      \<and> filter (\<lambda>r. \<not> (si_user_id r = u \<and> si_date r = date_or_today clk dt)) (sugar_insights s')
          = filter (\<lambda>r. \<not> (si_user_id r = u \<and> si_date r = date_or_today clk dt)) (sugar_insights s)
      \<and> daily_tracker s' = daily_tracker s \<and> food_items s' = food_items s
      \<and> favorite_foods s' = favorite_foods s"
proof -
  let ?d = "date_or_today clk dt"
  let ?K = "\<lambda>r. si_user_id r = u \<and> si_date r = ?d"
  let ?es = "day_entries u ?d s"
  from day_entries_nonempty_row [OF assms] obtain s' r r0 where
    sv: "save_daily_insight clk dt u s = (True, s')"
    and f: "find ?K (sugar_insights s') = Some r"
    and r: "r = set_totals ?es r0"
    by blast
  have others: "filter (\<lambda>r. \<not> ?K r) (sugar_insights s') = filter (\<lambda>r. \<not> ?K r) (sugar_insights s)
      \<and> daily_tracker s' = daily_tracker s \<and> food_items s' = food_items s
      \<and> favorite_foods s' = favorite_foods s"
  proof (cases "find ?K (sugar_insights s)")
    case None
    from save_daily_insight_insert [OF assms None] sv show ?thesis by auto
  next
    case (Some x)
    from save_daily_insight_update [OF assms Some] sv
    have "s' = s\<lparr>sugar_insights := update_first ?K (set_totals ?es) (sugar_insights s)\<rparr>"
      by simp
    then show ?thesis
      using filter_update_first [of ?K "set_totals ?es" "sugar_insights s"] by simp
  qed
  from r have "si_total_sugar_g r = sum_list (map dt_sugar_g ?es)"
    "si_total_calories r = sum_list (map dt_calories ?es)"
    "si_food_count r = length ?es"
    "si_exceeded_limit r = (sum_list (map dt_sugar_g ?es) > 25)"
    by (simp_all add: set_totals_def)
  with sv f others show ?thesis by blast
qed

lemma save_daily_insight_in_place:
  assumes "unique_insights s" and "day_entries u (date_or_today clk dt) s \<noteq> []"
    and "\<exists>r\<in>set (sugar_insights s). si_user_id r = u \<and> si_date r = date_or_today clk dt"
  shows "save_daily_insight clk dt u s =
     (True,
      s\<lparr>sugar_insights :=
           map (\<lambda>r. if si_user_id r = u \<and> si_date r = date_or_today clk dt
                    then r\<lparr> si_total_sugar_g := sum_list (map dt_sugar_g (day_entries u (date_or_today clk dt) s)),
                            si_total_calories := sum_list (map dt_calories (day_entries u (date_or_today clk dt) s)),
                            si_food_count := length (day_entries u (date_or_today clk dt) s),
                            si_exceeded_limit := (sum_list (map dt_sugar_g (day_entries u (date_or_today clk dt) s)) > 25) \<rparr>
                    else r)
               (sugar_insights s)\<rparr>)"
proof -
  let ?d = "date_or_today clk dt"
  let ?K = "\<lambda>r. si_user_id r = u \<and> si_date r = ?d"
  let ?es = "day_entries u ?d s"
  from assms(3) obtain x where "find ?K (sugar_insights s) = Some x"
    using find_Some_iff_ex [of ?K "sugar_insights s"] by blast
  from save_daily_insight_update [OF assms(2) this]
  have "save_daily_insight clk dt u s =
          (True, s\<lparr>sugar_insights := update_first ?K (set_totals ?es) (sugar_insights s)\<rparr>)" .
  moreover have "update_first ?K (set_totals ?es) (sugar_insights s)
                 = map (\<lambda>r. if ?K r then set_totals ?es r else r) (sugar_insights s)"
    using assms(1) unfolding unique_insights_def
    by (rule update_first_unique) (auto simp: insight_key_def)
  ultimately show ?thesis by (simp add: set_totals_def)
qed

lemma save_daily_insight_created:
  assumes "day_entries u (date_or_today clk dt) s \<noteq> []"
    and "\<not> (\<exists>r\<in>set (sugar_insights s). si_user_id r = u \<and> si_date r = date_or_today clk dt)"
  shows "save_daily_insight clk dt u s =
     (True,
      s\<lparr>sugar_insights := sugar_insights s @
           [\<lparr> si_id = insight_seq s, si_user_id = u, si_date = date_or_today clk dt,
              si_total_sugar_g = sum_list (map dt_sugar_g (day_entries u (date_or_today clk dt) s)),
              si_total_calories = sum_list (map dt_calories (day_entries u (date_or_today clk dt) s)),
              si_food_count = length (day_entries u (date_or_today clk dt) s),
              si_exceeded_limit = (sum_list (map dt_sugar_g (day_entries u (date_or_today clk dt) s)) > 25),
              si_created_at = utcnow clk \<rparr>],
         insight_seq := insight_seq s + 1\<rparr>)"
proof -
  from assms(2) have
    "find (\<lambda>r. si_user_id r = u \<and> si_date r = date_or_today clk dt) (sugar_insights s) = None"
    by (simp add: find_None_iff)
  from save_daily_insight_insert [OF assms(1) this] show ?thesis
    by (simp add: set_totals_def)
qed

lemma add_to_daily_tracker_ok:
  assumes "map_of food_data ''name'' = Some nm"
    and "dict_get food_data ''sugar_g'' (JNum 0) = JNum v"
    and "dict_get food_data ''calories'' (JNum 0) = JNum c"
  shows "\<exists>s1 e. add_to_daily_tracker rt clk food_data p u s = (True, s1)
           \<and> daily_tracker s1 = daily_tracker s @ [e]
           \<and> sugar_insights s1 = sugar_insights s
           \<and> dt_user_id e = u \<and> dt_date e = today clk \<and> dt_portion_g e = p
           \<and> dt_sugar_g e = v / 100 * p \<and> dt_calories e = c / 100 * p"
  using assms save_food_item_frame(2,3) [of rt clk food_data s]
  by (cases "save_food_item rt clk food_data s") (simp add: add_to_daily_tracker_def)

section \<open>Favorites\<close>

lemma add_to_favorites_existing:
  assumes "map_of food_data ''name'' = Some nm"
    and "\<exists>f\<in>set (favorite_foods s). fav_user_id f = user_id \<and> fav_food_name f = nm"
  shows "add_to_favorites rt clk food_data user_id s = (False, s)"
proof -
  from assms(2) obtain y where
    "find (\<lambda>f. fav_user_id f = user_id \<and> fav_food_name f = nm) (favorite_foods s) = Some y"
    using find_Some_iff_ex [of "\<lambda>f. fav_user_id f = user_id \<and> fav_food_name f = nm" "favorite_foods s"]
    by blast
  with assms(1) show ?thesis by (simp add: add_to_favorites_def)
qed

lemma add_to_favorites_new:
  assumes "map_of food_data ''name'' = Some nm"
    and "\<not> (\<exists>f\<in>set (favorite_foods s). fav_user_id f = user_id \<and> fav_food_name f = nm)"
  shows "\<exists>s1 fav. add_to_favorites rt clk food_data user_id s = (True, s1)
           \<and> favorite_foods s1 = favorite_foods s @ [fav]
           \<and> fav_user_id fav = user_id \<and> fav_food_name fav = nm"
proof -
  from assms(2) have
    "find (\<lambda>f. fav_user_id f = user_id \<and> fav_food_name f = nm) (favorite_foods s) = None"
    by (simp add: find_None_iff)
  with assms(1) show ?thesis
    by (cases "save_food_item rt clk food_data s")
       (use save_food_item_frame(1) [of rt clk food_data s] in \<open>simp add: add_to_favorites_def\<close>)
qed

text \<open>
  C5. When the user already has a favorite with the food's name, \<^verbatim>\<open>add_to_favorites\<close>
  returns \<^verbatim>\<open>False\<close> and leaves the favorites table as it is. When there is none, the first
  call succeeds, a second call with the same food returns \<^verbatim>\<open>False\<close> and changes nothing,
  and the table then holds exactly one favorite of that user and name.
\<close>

theorem duplicate_favorite_rejected:
  assumes "map_of food_data ''name'' = Some nm"
  shows "((\<exists>f\<in>set (favorite_foods s). fav_user_id f = user_id \<and> fav_food_name f = nm) \<longrightarrow>
            \<not> fst (add_to_favorites rt clk food_data user_id s)
          \<and> favorite_foods (snd (add_to_favorites rt clk food_data user_id s)) = favorite_foods s)
       \<and> (\<not> (\<exists>f\<in>set (favorite_foods s). fav_user_id f = user_id \<and> fav_food_name f = nm) \<longrightarrow>
            (\<exists>s1. add_to_favorites rt clk food_data user_id s = (True, s1)
               \<and> \<not> fst (add_to_favorites rt' clk' food_data user_id s1)
               \<and> favorite_foods (snd (add_to_favorites rt' clk' food_data user_id s1)) = favorite_foods s1
               \<and> length (filter (\<lambda>f. fav_user_id f = user_id \<and> fav_food_name f = nm)
                           (favorite_foods (snd (add_to_favorites rt' clk' food_data user_id s1)))) = 1))"
proof (intro conjI impI)
  assume "\<exists>f\<in>set (favorite_foods s). fav_user_id f = user_id \<and> fav_food_name f = nm"
  with assms have "add_to_favorites rt clk food_data user_id s = (False, s)"
    by (rule add_to_favorites_existing)
  then show "\<not> fst (add_to_favorites rt clk food_data user_id s)"
    and "favorite_foods (snd (add_to_favorites rt clk food_data user_id s)) = favorite_foods s"
    by simp_all
next
  let ?K = "\<lambda>f. fav_user_id f = user_id \<and> fav_food_name f = nm"
  assume fresh: "\<not> (\<exists>f\<in>set (favorite_foods s). fav_user_id f = user_id \<and> fav_food_name f = nm)"
  with assms obtain s1 fav where
    first: "add_to_favorites rt clk food_data user_id s = (True, s1)"
    and favs: "favorite_foods s1 = favorite_foods s @ [fav]"
    and key: "?K fav"
    using add_to_favorites_new [of food_data nm s user_id rt clk] by blast
  from favs key have "\<exists>f\<in>set (favorite_foods s1). ?K f" by simp
  with assms have second: "add_to_favorites rt' clk' food_data user_id s1 = (False, s1)"
    by (rule add_to_favorites_existing)
  from fresh have "filter ?K (favorite_foods s) = []" by (auto simp: filter_empty_conv)
  with favs key have "length (filter ?K (favorite_foods s1)) = 1" by simp
  with first second show
    "\<exists>s1. add_to_favorites rt clk food_data user_id s = (True, s1)
       \<and> \<not> fst (add_to_favorites rt' clk' food_data user_id s1)
       \<and> favorite_foods (snd (add_to_favorites rt' clk' food_data user_id s1)) = favorite_foods s1
       \<and> length (filter ?K (favorite_foods (snd (add_to_favorites rt' clk' food_data user_id s1)))) = 1"
    by simp
qed

theorem duplicate_favorite_rejected_witness:
  "\<exists>s1. add_to_favorites plain_runtime \<lparr>today = ''2024-05-01'', utcnow = 7\<rparr> apple 1 empty_store = (True, s1)
      \<and> \<not> fst (add_to_favorites plain_runtime \<lparr>today = ''2024-05-01'', utcnow = 9\<rparr> apple 1 s1)
      \<and> length (filter (\<lambda>f. fav_user_id f = 1 \<and> fav_food_name f = JStr ''Apple'')
                  (favorite_foods (snd (add_to_favorites plain_runtime \<lparr>today = ''2024-05-01'', utcnow = 9\<rparr> apple 1 s1)))) = 1"
proof -
  have nm: "map_of apple ''name'' = Some (JStr ''Apple'')" by (simp add: apple_def)
  have fresh: "\<not> (\<exists>f\<in>set (favorite_foods empty_store). fav_user_id f = 1 \<and> fav_food_name f = JStr ''Apple'')"
    by (simp add: empty_store_def)
  from duplicate_favorite_rejected [OF nm, of empty_store 1 plain_runtime "\<lparr>today = ''2024-05-01'', utcnow = 7\<rparr>"
      plain_runtime "\<lparr>today = ''2024-05-01'', utcnow = 9\<rparr>"] fresh
  show ?thesis by blast
qed

text \<open>
  C10. On the duplicate path \<^verbatim>\<open>add_to_favorites\<close> returns \<^verbatim>\<open>False\<close> before
  \<^verbatim>\<open>save_food_item\<close> is called: the whole store is unchanged, the \<^verbatim>\<open>food_items\<close> table
  included.
\<close>

theorem duplicate_favorite_store_unchanged:
  assumes "map_of food_data ''name'' = Some nm"
    and "\<exists>f\<in>set (favorite_foods s). fav_user_id f = user_id \<and> fav_food_name f = nm"
  shows "add_to_favorites rt clk food_data user_id s = (False, s)
       \<and> food_items (snd (add_to_favorites rt clk food_data user_id s)) = food_items s"
  using add_to_favorites_existing [OF assms] by simp

theorem duplicate_favorite_store_unchanged_witness:
  "food_items (snd (save_food_item plain_runtime \<lparr>today = ''2024-05-01'', utcnow = 9\<rparr> apple
                      (empty_store\<lparr>favorite_foods := [apple_favorite]\<rparr>))) \<noteq> []
   \<and> add_to_favorites plain_runtime \<lparr>today = ''2024-05-01'', utcnow = 9\<rparr> apple 1
        (empty_store\<lparr>favorite_foods := [apple_favorite]\<rparr>)
      = (False, empty_store\<lparr>favorite_foods := [apple_favorite]\<rparr>)
   \<and> food_items (snd (add_to_favorites plain_runtime \<lparr>today = ''2024-05-01'', utcnow = 9\<rparr> apple 1
        (empty_store\<lparr>favorite_foods := [apple_favorite]\<rparr>))) = []"
proof -
  let ?s = "empty_store\<lparr>favorite_foods := [apple_favorite]\<rparr>"
  have nm: "map_of apple ''name'' = Some (JStr ''Apple'')" by (simp add: apple_def)
  have dup: "\<exists>f\<in>set (favorite_foods ?s). fav_user_id f = 1 \<and> fav_food_name f = JStr ''Apple''"
    by (simp add: apple_favorite_def)
  have sv: "food_items (snd (save_food_item plain_runtime \<lparr>today = ''2024-05-01'', utcnow = 9\<rparr> apple ?s)) \<noteq> []"
    by (simp add: save_food_item_def apple_def empty_store_def)
  have e: "food_items ?s = []" by (simp add: empty_store_def)
  from duplicate_favorite_store_unchanged [OF nm dup, of plain_runtime "\<lparr>today = ''2024-05-01'', utcnow = 9\<rparr>"] sv e
  show ?thesis by simp
qed

section \<open>Tracking a portion and recomputing the day\<close>

text \<open>
  C3. Tracking a food whose record has \<open>sugar_g = v\<close> per 100 g with the portion \<open>p\<close> succeeds
  and appends an entry with \<open>sugar_g = v / 100 * p\<close>; when it is the only entry of that user
  and day, recomputing the day's insight stores a row with that total, one food, and the
  flag \<open>v / 100 * p > 25\<close>. For \<open>v = 10.6\<close> and \<open>p = 250\<close>: 26.5 and exceeded.
\<close>

theorem tracked_portion_snapshot:
  assumes nm: "map_of food_data ''name'' = Some nm"
    and sugar: "dict_get food_data ''sugar_g'' (JNum 0) = JNum v"
    and cal: "dict_get food_data ''calories'' (JNum 0) = JNum c"
    and only: "day_entries u (today clk) s = []"
    and same_day: "date_or_today clkb dtb = today clk"
  shows "\<exists>s1 e s2 r.
           add_to_daily_tracker rt clk food_data p u s = (True, s1)
         \<and> daily_tracker s1 = daily_tracker s @ [e]
         \<and> dt_user_id e = u \<and> dt_date e = today clk \<and> dt_portion_g e = p
         \<and> dt_sugar_g e = v / 100 * p
         \<and> save_daily_insight clkb dtb u s1 = (True, s2)
         \<and> find (\<lambda>r. si_user_id r = u \<and> si_date r = today clk) (sugar_insights s2) = Some r
         \<and> si_total_sugar_g r = v / 100 * p
         \<and> si_food_count r = 1
         \<and> si_exceeded_limit r = (v / 100 * p > 25)"
proof -
  from add_to_daily_tracker_ok [OF nm sugar cal, of rt clk p u s] obtain s1 e where
    add: "add_to_daily_tracker rt clk food_data p u s = (True, s1)"
    and tr: "daily_tracker s1 = daily_tracker s @ [e]"
    and e: "dt_user_id e = u" "dt_date e = today clk" "dt_portion_g e = p"
           "dt_sugar_g e = v / 100 * p"
    by blast
  from only tr e have day: "day_entries u (date_or_today clkb dtb) s1 = [e]"
    by (simp add: day_entries_def same_day)
  then have "day_entries u (date_or_today clkb dtb) s1 \<noteq> []" by simp
  from day_entries_nonempty_row [OF this] obtain s2 r r0 where
    sv: "save_daily_insight clkb dtb u s1 = (True, s2)"
    and f: "find (\<lambda>r. si_user_id r = u \<and> si_date r = date_or_today clkb dtb) (sugar_insights s2) = Some r"
    and r: "r = set_totals (day_entries u (date_or_today clkb dtb) s1) r0"
    by blast
  from r day e have "si_total_sugar_g r = v / 100 * p" "si_food_count r = 1"
    "si_exceeded_limit r = (v / 100 * p > 25)"
    by (simp_all add: set_totals_def)
  with add tr e sv f show ?thesis unfolding same_day by blast
qed

theorem tracked_portion_snapshot_witness:
  "\<exists>s1 e s2 r.
       add_to_daily_tracker plain_runtime may_first cola 250 1 empty_store = (True, s1)
     \<and> daily_tracker s1 = [e]
     \<and> dt_sugar_g e = 26.5
     \<and> save_daily_insight may_first_later None 1 s1 = (True, s2)
     \<and> find (\<lambda>r. si_user_id r = 1 \<and> si_date r = ''2024-05-01'') (sugar_insights s2) = Some r
     \<and> si_total_sugar_g r = 26.5
     \<and> si_exceeded_limit r"
proof -
  have nm: "map_of cola ''name'' = Some (JStr ''Coca Cola'')" by (simp add: cola_def)
  have sugar: "dict_get cola ''sugar_g'' (JNum 0) = JNum 10.6" by (simp add: cola_def dict_get_def)
  have cal: "dict_get cola ''calories'' (JNum 0) = JNum 42" by (simp add: cola_def dict_get_def)
  have only: "day_entries 1 (today may_first) empty_store = []"
    by (simp add: day_entries_def empty_store_def)
  have same_day: "date_or_today may_first_later None = today may_first"
    by (simp add: date_or_today_def may_first_def may_first_later_def)
  have t: "today may_first = ''2024-05-01''" by (simp add: may_first_def)
  have d: "daily_tracker empty_store = []" by (simp add: empty_store_def)
  have a: "(10.6::real) / 100 * 250 = 26.5" by simp
  from tracked_portion_snapshot [OF nm sugar cal only same_day, of plain_runtime 250]
  obtain s1 e s2 r where
    f1: "add_to_daily_tracker plain_runtime may_first cola 250 1 empty_store = (True, s1)"
    and f2: "daily_tracker s1 = daily_tracker empty_store @ [e]"
    and f3: "dt_sugar_g e = 10.6 / 100 * 250"
    and f4: "save_daily_insight may_first_later None 1 s1 = (True, s2)"
    and f5: "find (\<lambda>r. si_user_id r = 1 \<and> si_date r = today may_first) (sugar_insights s2) = Some r"
    and f6: "si_total_sugar_g r = 10.6 / 100 * 250"
    and f7: "si_exceeded_limit r = (10.6 / 100 * 250 > (25::real))"
    by blast
  from f2 have g2: "daily_tracker s1 = [e]" by (simp add: d)
  from f3 have g3: "dt_sugar_g e = 26.5" by simp
  from f5 have g5: "find (\<lambda>r. si_user_id r = 1 \<and> si_date r = ''2024-05-01'') (sugar_insights s2) = Some r"
    by (simp add: t)
  from f6 have g6: "si_total_sugar_g r = 26.5" by simp
  from f7 have g7: "si_exceeded_limit r" by simp
  from f1 g2 g3 f4 g5 g6 g7 show ?thesis by blast
qed

section \<open>Recomputing the daily insight\<close>

text \<open>
  C2. Running \<^verbatim>\<open>save_daily_insight\<close> a second time for the same user and day, with the
  tracker unchanged, returns the same result and leaves the store exactly as the first run
  left it. A run of recomputations keeps at most one insight row per \<open>(user, date)\<close>. When
  a row for the key exists, it is updated in place: the keys and primary keys of the table
  are the same, in the same order. What a run with a non-empty day writes: it returns
  \<^verbatim>\<open>True\<close>, the row of the key then holds the sums of the day's entries, their number and
  the flag \<open>total > 25\<close>, rows of other keys and the other tables are untouched; with at most
  one row per key the store afterwards is the old one with exactly the four totals of the
  key's row overwritten, and without a row for the key it is the old one with one new row
  appended.
\<close>

theorem recompute_idempotent_upsert:
  "(date_or_today clkb dtb = date_or_today clka dta \<longrightarrow>
      save_daily_insight clkb dtb u (snd (save_daily_insight clka dta u s))
        = (fst (save_daily_insight clka dta u s), snd (save_daily_insight clka dta u s)))
   \<and> (unique_insights s \<longrightarrow> unique_insights (recompute_all cs s))
   \<and> ((\<exists>r\<in>set (sugar_insights s). si_user_id r = u \<and> si_date r = date_or_today clka dta) \<longrightarrow>
        map insight_key (sugar_insights (snd (save_daily_insight clka dta u s)))
          = map insight_key (sugar_insights s)
      \<and> map si_id (sugar_insights (snd (save_daily_insight clka dta u s)))
          = map si_id (sugar_insights s))
   \<and> (day_entries u (date_or_today clka dta) s \<noteq> [] \<longrightarrow>
        (\<exists>s' r. save_daily_insight clka dta u s = (True, s')
          \<and> find (\<lambda>r. si_user_id r = u \<and> si_date r = date_or_today clka dta) (sugar_insights s') = Some r
          \<and> si_total_sugar_g r = sum_list (map dt_sugar_g (day_entries u (date_or_today clka dta) s))
          \<and> si_total_calories r = sum_list (map dt_calories (day_entries u (date_or_today clka dta) s))
          \<and> si_food_count r = length (day_entries u (date_or_today clka dta) s)
          \<and> si_exceeded_limit r
              = (sum_list (map dt_sugar_g (day_entries u (date_or_today clka dta) s)) > 25)
          \<and> filter (\<lambda>r. \<not> (si_user_id r = u \<and> si_date r = date_or_today clka dta)) (sugar_insights s')
              = filter (\<lambda>r. \<not> (si_user_id r = u \<and> si_date r = date_or_today clka dta)) (sugar_insights s)
          \<and> daily_tracker s' = daily_tracker s \<and> food_items s' = food_items s
          \<and> favorite_foods s' = favorite_foods s))
   \<and> (unique_insights s \<and> day_entries u (date_or_today clka dta) s \<noteq> []
        \<and> (\<exists>r\<in>set (sugar_insights s). si_user_id r = u \<and> si_date r = date_or_today clka dta) \<longrightarrow>
        save_daily_insight clka dta u s =
          (True,
           s\<lparr>sugar_insights :=
                map (\<lambda>r. if si_user_id r = u \<and> si_date r = date_or_today clka dta
                         then r\<lparr> si_total_sugar_g :=
                                   sum_list (map dt_sugar_g (day_entries u (date_or_today clka dta) s)),
                                 si_total_calories :=
                                   sum_list (map dt_calories (day_entries u (date_or_today clka dta) s)),
                                 si_food_count := length (day_entries u (date_or_today clka dta) s),
                                 si_exceeded_limit :=
                                   (sum_list (map dt_sugar_g (day_entries u (date_or_today clka dta) s)) > 25) \<rparr>
                         else r)
                    (sugar_insights s)\<rparr>))
   \<and> (day_entries u (date_or_today clka dta) s \<noteq> []
        \<and> \<not> (\<exists>r\<in>set (sugar_insights s). si_user_id r = u \<and> si_date r = date_or_today clka dta) \<longrightarrow>
        save_daily_insight clka dta u s =
          (True,
           s\<lparr>sugar_insights := sugar_insights s @
                [\<lparr> si_id = insight_seq s, si_user_id = u, si_date = date_or_today clka dta,
                   si_total_sugar_g = sum_list (map dt_sugar_g (day_entries u (date_or_today clka dta) s)),
                   si_total_calories = sum_list (map dt_calories (day_entries u (date_or_today clka dta) s)),
                   si_food_count = length (day_entries u (date_or_today clka dta) s),
                   si_exceeded_limit =
                     (sum_list (map dt_sugar_g (day_entries u (date_or_today clka dta) s)) > 25),
                   si_created_at = utcnow clka \<rparr>],
              insight_seq := insight_seq s + 1\<rparr>))"
proof (intro conjI)
  show "date_or_today clkb dtb = date_or_today clka dta \<longrightarrow>
      save_daily_insight clkb dtb u (snd (save_daily_insight clka dta u s))
        = (fst (save_daily_insight clka dta u s), snd (save_daily_insight clka dta u s))"
    using save_daily_insight_idem [of clkb dtb clka dta u s] by blast
  show "unique_insights s \<longrightarrow> unique_insights (recompute_all cs s)"
    using recompute_all_unique [of s cs] by blast
  show "(\<exists>r\<in>set (sugar_insights s). si_user_id r = u \<and> si_date r = date_or_today clka dta) \<longrightarrow>
        map insight_key (sugar_insights (snd (save_daily_insight clka dta u s)))
          = map insight_key (sugar_insights s)
      \<and> map si_id (sugar_insights (snd (save_daily_insight clka dta u s)))
          = map si_id (sugar_insights s)"
    using save_daily_insight_keys [of s u clka dta] by blast
qed (use save_daily_insight_written [of u clka dta s] save_daily_insight_in_place [of s u clka dta]
      save_daily_insight_created [of u clka dta s] in blast)+

theorem recompute_idempotent_upsert_witness:
  "save_daily_insight may_first None 1 tracked_store = (True, insight_store)
   \<and> save_daily_insight may_first_later (Some ''2024-05-01'') 1 insight_store = (True, insight_store)
   \<and> unique_insights
       (recompute_all [(may_first, None, 1), (may_first_later, Some ''2024-05-01'', 1),
                       (may_first_later, None, 1)] tracked_store)
   \<and> map si_id (sugar_insights (snd (save_daily_insight may_first_later None 1 insight_store))) = [1]
   \<and> sugar_insights stale_store = [cola_insight]
   \<and> save_daily_insight may_first_later None 1 stale_store
       = (True, stale_store\<lparr>sugar_insights :=
                   [cola_insight\<lparr> si_total_sugar_g := 53, si_total_calories := 210,
                                  si_food_count := 2, si_exceeded_limit := True \<rparr>]\<rparr>)"
proof -
  have first: "save_daily_insight may_first None 1 tracked_store = (True, insight_store)"
  proof -
    have e: "day_entries 1 (date_or_today may_first None) tracked_store = [cola_entry]"
      by (simp add: day_entries_def date_or_today_def may_first_def tracked_store_def cola_entry_def)
    have n: "\<not> (\<exists>r\<in>set (sugar_insights tracked_store).
                 si_user_id r = 1 \<and> si_date r = date_or_today may_first None)"
      by (simp add: tracked_store_def empty_store_def)
    from recompute_idempotent_upsert [where clka = may_first and dta = None and u = 1
        and s = tracked_store] e n
    have "save_daily_insight may_first None 1 tracked_store =
          (True,
           tracked_store\<lparr>sugar_insights := sugar_insights tracked_store @
                [\<lparr> si_id = insight_seq tracked_store, si_user_id = 1,
                   si_date = date_or_today may_first None,
                   si_total_sugar_g = sum_list (map dt_sugar_g [cola_entry]),
                   si_total_calories = sum_list (map dt_calories [cola_entry]),
                   si_food_count = length [cola_entry],
                   si_exceeded_limit = (sum_list (map dt_sugar_g [cola_entry]) > 25),
                   si_created_at = utcnow may_first \<rparr>],
              insight_seq := insight_seq tracked_store + 1\<rparr>)"
      by simp
    then show ?thesis
      by (simp add: insight_store_def tracked_store_def empty_store_def cola_insight_def
          cola_entry_def date_or_today_def may_first_def)
  qed
  have same: "date_or_today may_first_later (Some ''2024-05-01'') = date_or_today may_first None"
    by (simp add: date_or_today_def may_first_def)
  have u: "unique_insights tracked_store"
    by (simp add: unique_insights_def tracked_store_def empty_store_def)
  have ex: "\<exists>r\<in>set (sugar_insights insight_store).
              si_user_id r = 1 \<and> si_date r = date_or_today may_first_later None"
    by (simp add: insight_store_def cola_insight_def date_or_today_def may_first_later_def)
  have ids: "map si_id (sugar_insights insight_store) = [1]"
    by (simp add: insight_store_def cola_insight_def)
  from recompute_idempotent_upsert [where clkb = may_first_later and dtb = "Some ''2024-05-01''"
      and clka = may_first and dta = None and u = 1 and s = tracked_store]
    same first
  have second: "save_daily_insight may_first_later (Some ''2024-05-01'') 1 insight_store = (True, insight_store)"
    by simp
  from recompute_idempotent_upsert [where s = tracked_store and cs =
      "[(may_first, None, 1), (may_first_later, Some ''2024-05-01'', 1), (may_first_later, None, 1)]"] u
  have third: "unique_insights
       (recompute_all [(may_first, None, 1), (may_first_later, Some ''2024-05-01'', 1),
                       (may_first_later, None, 1)] tracked_store)"
    by blast
  from recompute_idempotent_upsert [where clka = may_first_later and dta = None and u = 1
      and s = insight_store] ex ids
  have fourth: "map si_id (sugar_insights (snd (save_daily_insight may_first_later None 1 insight_store))) = [1]"
    by simp
  have stale: "sugar_insights stale_store = [cola_insight]"
    by (simp add: stale_store_def insight_store_def)
  have us: "unique_insights stale_store"
    by (simp add: unique_insights_def stale)
  have es: "day_entries 1 (date_or_today may_first_later None) stale_store = [cola_entry, cola_entry_again]"
    by (simp add: day_entries_def date_or_today_def may_first_later_def stale_store_def
        cola_entry_def cola_entry_again_def)
  have exs: "\<exists>r\<in>set (sugar_insights stale_store).
              si_user_id r = 1 \<and> si_date r = date_or_today may_first_later None"
    by (simp add: stale cola_insight_def date_or_today_def may_first_later_def)
  from recompute_idempotent_upsert [where clka = may_first_later and dta = None and u = 1
      and s = stale_store] us es exs
  have "save_daily_insight may_first_later None 1 stale_store =
          (True,
           stale_store\<lparr>sugar_insights :=
                map (\<lambda>r. if si_user_id r = 1 \<and> si_date r = date_or_today may_first_later None
                         then r\<lparr> si_total_sugar_g := sum_list (map dt_sugar_g [cola_entry, cola_entry_again]),
                                 si_total_calories := sum_list (map dt_calories [cola_entry, cola_entry_again]),
                                 si_food_count := length [cola_entry, cola_entry_again],
                                 si_exceeded_limit :=
                                   (sum_list (map dt_sugar_g [cola_entry, cola_entry_again]) > 25) \<rparr>
                         else r)
                    (sugar_insights stale_store)\<rparr>)"
    by simp
  then have fifth: "save_daily_insight may_first_later None 1 stale_store
       = (True, stale_store\<lparr>sugar_insights :=
                   [cola_insight\<lparr> si_total_sugar_g := 53, si_total_calories := 210,
                                  si_food_count := 2, si_exceeded_limit := True \<rparr>]\<rparr>)"
    by (simp add: stale cola_insight_def cola_entry_def cola_entry_again_def date_or_today_def
        may_first_later_def)
  from first second third fourth stale fifth show ?thesis by blast
qed

lemma clear_daily_tracker_day:
  "day_entries u (date_or_today clk dt) (snd (clear_daily_tracker clk dt u s)) = []"
  by (auto simp: clear_daily_tracker_def day_entries_def filter_empty_conv)

text \<open>
  C9. With no tracker entries for the user and day, \<^verbatim>\<open>save_daily_insight\<close> returns
  \<^verbatim>\<open>False\<close> and the store is unchanged. In particular after \<^verbatim>\<open>clear_daily_tracker\<close> for
  that day the next recomputation writes nothing, and the insight table is the one from
  before the clearing: a stored row keeps its old totals.
\<close>

theorem empty_day_keeps_stale_insight:
  "(day_entries u (date_or_today clk dt) s = [] \<longrightarrow> save_daily_insight clk dt u s = (False, s))
   \<and> (date_or_today clkc dtc = date_or_today clkb dtb \<longrightarrow>
        day_entries u (date_or_today clkb dtb) (snd (clear_daily_tracker clkb dtb u s)) = []
      \<and> save_daily_insight clkc dtc u (snd (clear_daily_tracker clkb dtb u s))
          = (False, snd (clear_daily_tracker clkb dtb u s))
      \<and> sugar_insights (snd (clear_daily_tracker clkb dtb u s)) = sugar_insights s)"
proof (intro conjI impI)
  assume "day_entries u (date_or_today clk dt) s = []"
  then show "save_daily_insight clk dt u s = (False, s)"
    by (simp add: save_daily_insight_empty day_entries_def)
next
  show "day_entries u (date_or_today clkb dtb) (snd (clear_daily_tracker clkb dtb u s)) = []"
    by (rule clear_daily_tracker_day)
next
  assume "date_or_today clkc dtc = date_or_today clkb dtb"
  with clear_daily_tracker_day [of u clkb dtb s]
  show "save_daily_insight clkc dtc u (snd (clear_daily_tracker clkb dtb u s))
          = (False, snd (clear_daily_tracker clkb dtb u s))"
    by (simp add: save_daily_insight_empty day_entries_def)
next
  show "sugar_insights (snd (clear_daily_tracker clkb dtb u s)) = sugar_insights s"
    by (simp add: clear_daily_tracker_def)
qed

theorem empty_day_keeps_stale_insight_witness:
  "daily_tracker (snd (clear_daily_tracker may_first_later None 1 insight_store)) = []
   \<and> fst (save_daily_insight may_first_later None 1
            (snd (clear_daily_tracker may_first_later None 1 insight_store))) = False
   \<and> sugar_insights (snd (save_daily_insight may_first_later None 1
            (snd (clear_daily_tracker may_first_later None 1 insight_store)))) = [cola_insight]
   \<and> si_total_sugar_g cola_insight = 26.5"
proof -
  have tr: "daily_tracker (snd (clear_daily_tracker may_first_later None 1 insight_store)) = []"
    by (simp add: clear_daily_tracker_def insight_store_def tracked_store_def cola_entry_def
        date_or_today_def may_first_later_def)
  have ins: "sugar_insights insight_store = [cola_insight]" by (simp add: insight_store_def)
  have tot: "si_total_sugar_g cola_insight = 26.5" by (simp add: cola_insight_def)
  from empty_day_keeps_stale_insight [where u = 1 and s = insight_store and clk = may_first
      and dt = None and clkc = may_first_later and dtc = None and clkb = may_first_later and dtb = None]
  have "save_daily_insight may_first_later None 1
            (snd (clear_daily_tracker may_first_later None 1 insight_store))
          = (False, snd (clear_daily_tracker may_first_later None 1 insight_store))"
    and "sugar_insights (snd (clear_daily_tracker may_first_later None 1 insight_store))
          = sugar_insights insight_store"
    by simp_all
  with tr ins tot show ?thesis by simp
qed

section \<open>Weekly insights\<close>

lemma get_weekly_insights_alt:
  "0 \<le> days \<Longrightarrow>
   get_weekly_insights u days s = map summary_of (take (nat days) (by_date_desc (user_rows u s)))"
  by (simp add: get_weekly_insights_def by_date_desc_def user_rows_def)

lemma by_date_desc_sorted: "sorted_wrt (\<lambda>a b. si_date b \<le> si_date a) (by_date_desc rows)"
proof -
  have "sorted (map si_date (sort_key si_date rows))" by (rule sorted_sort_key)
  then have "sorted_wrt (\<lambda>a b. si_date a \<le> si_date b) (sort_key si_date rows)"
    by (simp add: sorted_wrt_map)
  then show ?thesis
    unfolding by_date_desc_def by (simp add: sorted_wrt_rev)
qed

lemma by_date_desc_mset: "mset (by_date_desc rows) = mset rows"
  by (simp add: by_date_desc_def)

lemma sorted_wrt_take_drop:
  assumes "sorted_wrt R xs"
  shows "sorted_wrt R (take n xs) \<and> (\<forall>a\<in>set (take n xs). \<forall>b\<in>set (drop n xs). R a b)"
proof -
  from assms have "sorted_wrt R (take n xs @ drop n xs)" by simp
  then show ?thesis unfolding sorted_wrt_append by blast
qed

text \<open>
  C6. For \<open>days \<ge> 0\<close>, \<^verbatim>\<open>get_weekly_insights\<close> returns summaries of stored rows of the
  user and of nothing else: the stored rows split into the chosen ones and the rest, the
  chosen ones are in descending order of date, none of the rest is more recent than a
  chosen one, and the number returned is the smaller of \<open>days\<close> and the number of stored
  rows. With three stored days and \<open>days = 7\<close> the result has three rows.
\<close>

theorem weekly_insights_stored_rows:
  assumes "0 \<le> days"
  shows "\<exists>chosen rest.
           get_weekly_insights u days s = map summary_of chosen
         \<and> mset (chosen @ rest) = mset (filter (\<lambda>r. si_user_id r = u) (sugar_insights s))
         \<and> sorted_wrt (\<lambda>a b. si_date b \<le> si_date a) chosen
         \<and> (\<forall>a\<in>set chosen. \<forall>b\<in>set rest. si_date b \<le> si_date a)
         \<and> length (get_weekly_insights u days s)
             = min (nat days) (length (filter (\<lambda>r. si_user_id r = u) (sugar_insights s)))"
proof -
  let ?L = "by_date_desc (user_rows u s)"
  have len: "length ?L = length (user_rows u s)"
    using by_date_desc_mset [of "user_rows u s"] by (metis size_mset)
  have "get_weekly_insights u days s = map summary_of (take (nat days) ?L)"
    using assms by (rule get_weekly_insights_alt)
  moreover have "mset (take (nat days) ?L @ drop (nat days) ?L) = mset (user_rows u s)"
    by (simp add: by_date_desc_mset)
  moreover note sorted_wrt_take_drop [OF by_date_desc_sorted, of "nat days" "user_rows u s"]
  moreover have "length (map summary_of (take (nat days) ?L)) = min (nat days) (length (user_rows u s))"
    using len by simp
  ultimately show ?thesis
    unfolding user_rows_def by (intro exI [of _ "take (nat days) ?L"] exI [of _ "drop (nat days) ?L"]) (simp add: user_rows_def min.commute)
qed

theorem weekly_insights_stored_rows_witness:
  "(0::int) \<le> 7
   \<and> length (get_weekly_insights 1 7 three_day_store) = 3
   \<and> map date (get_weekly_insights 1 7 three_day_store) = [''2024-05-03'', ''2024-05-02'', ''2024-05-01'']
   \<and> length (get_weekly_insights 1 2 three_day_store) = 2"
proof -
  have rows: "length (filter (\<lambda>r. si_user_id r = 1) (sugar_insights three_day_store)) = 3"
    by (simp add: three_day_store_def day_row_def)
  from weekly_insights_stored_rows [of 7 1 three_day_store] rows
  have a: "length (get_weekly_insights 1 7 three_day_store) = 3" by auto
  from weekly_insights_stored_rows [of 2 1 three_day_store] rows
  have b: "length (get_weekly_insights 1 2 three_day_store) = 2" by auto
  have c: "map date (get_weekly_insights 1 7 three_day_store) = [''2024-05-03'', ''2024-05-02'', ''2024-05-01'']"
    by (simp add: get_weekly_insights_def three_day_store_def day_row_def summary_of_def
        less_eq_char_def less_char_def)
  from a b c show ?thesis by simp
qed

section \<open>Provider A: what the scan does to each field\<close>

lemma py_eq_num_unique: "py_eq_num v a \<Longrightarrow> py_eq_num v b \<Longrightarrow> a = b"
  by (cases v) (auto split: if_splits)

lemma field_id_inj: "field_id f = field_id g \<Longrightarrow> f = g"
  by (cases f; cases g) simp_all

lemma by_id_unique: "by_id f e \<Longrightarrow> by_id g e \<Longrightarrow> f = g"
  unfolding by_id_def by (blast dest: py_eq_num_unique field_id_inj)

lemma set_all_fields: "set all_fields = UNIV"
proof -
  have "f \<in> set all_fields" for f by (cases f) (simp_all add: all_fields_def)
  then show ?thesis by blast
qed

lemma has_table_id_iff: "has_table_id e \<longleftrightarrow> (\<exists>f. by_id f e)"
  by (simp add: has_table_id_def list_ex_iff set_all_fields)

lemma get_set_field: "get_field f (set_field g a info) = (if f = g then a else get_field f info)"
  by (cases f; cases g) simp_all

lemma assign_nutrient_fields:
  "assign_nutrient info nid nm a =
     (case id_field nid of
        Some f \<Rightarrow> set_field f a info
      | None \<Rightarrow>
          (case name_field nm of
             Some f \<Rightarrow> if py_eq_num (get_field f info) 0 then set_field f a info else info
           | None \<Rightarrow> info))"
proof -
  define p1 where "p1 = py_eq_num nid 2000"
  define p2 where "p2 = py_eq_num nid 1008"
  define p3 where "p3 = py_eq_num nid 1005"
  define p4 where "p4 = py_eq_num nid 1003"
  define p5 where "p5 = py_eq_num nid 1004"
  define p6 where "p6 = py_eq_num nid 1079"
  define p7 where "p7 = py_eq_num nid 1093"
  define c1 where "c1 = (contains ''sugar'' nm \<and> contains ''total'' nm)"
  define c2 where "c2 = (contains ''energy'' nm \<or> contains ''calorie'' nm)"
  define c3 where "c3 = (contains ''carbohydrate'' nm \<and> contains ''total'' nm)"
  define c4 where "c4 = contains ''protein'' nm"
  define c5 where "c5 = (contains ''fat'' nm \<and> (contains ''total'' nm \<or> contains ''lipid'' nm))"
  define c6 where "c6 = contains ''fiber'' nm"
  define c7 where "c7 = contains ''sodium'' nm"
  note ps = p1_def p2_def p3_def p4_def p5_def p6_def p7_def
  note cs = c1_def c2_def c3_def c4_def c5_def c6_def c7_def
  have I: "id_field nid =
      (if p1 then Some Sugar else if p2 then Some Calories else if p3 then Some Carbs
       else if p4 then Some Protein else if p5 then Some Fat else if p6 then Some Fiber
       else if p7 then Some Sodium else None)"
    unfolding ps id_field_def by (rule refl)
  have N: "name_field nm =
      (if c1 then Some Sugar else if c2 then Some Calories else if c3 then Some Carbs
       else if c4 then Some Protein else if c5 then Some Fat else if c6 then Some Fiber
       else if c7 then Some Sodium else None)"
    unfolding cs name_field_def by (rule refl)
  have A: "assign_nutrient info nid nm a =
      (if p1 then set_field Sugar a info
       else if p2 then set_field Calories a info
       else if p3 then set_field Carbs a info
       else if p4 then set_field Protein a info
       else if p5 then set_field Fat a info
       else if p6 then set_field Fiber a info
       else if p7 then set_field Sodium a info
       else if c1 then (if py_eq_num (get_field Sugar info) 0 then set_field Sugar a info else info)
       else if c2 then (if py_eq_num (get_field Calories info) 0 then set_field Calories a info else info)
       else if c3 then (if py_eq_num (get_field Carbs info) 0 then set_field Carbs a info else info)
       else if c4 then (if py_eq_num (get_field Protein info) 0 then set_field Protein a info else info)
       else if c5 then (if py_eq_num (get_field Fat info) 0 then set_field Fat a info else info)
       else if c6 then (if py_eq_num (get_field Fiber info) 0 then set_field Fiber a info else info)
       else if c7 then (if py_eq_num (get_field Sodium info) 0 then set_field Sodium a info else info)
       else info)"
    unfolding ps cs assign_nutrient_def set_field.simps get_field.simps by (rule refl)
  show ?thesis
    unfolding I N A by (simp del: set_field.simps get_field.simps)
qed

lemma id_field_iff: "id_field v = Some f \<longleftrightarrow> py_eq_num v (field_id f)"
proof (cases v)
  case (JNum x)
  then show ?thesis by (cases f) (simp_all add: id_field_def)
next
  case (JBool b)
  then show ?thesis by (cases f) (simp_all add: id_field_def)
qed (simp_all add: id_field_def)

lemma id_field_None_iff: "id_field (entry_id e) = None \<longleftrightarrow> \<not> has_table_id e"
proof -
  have "id_field (entry_id e) = None \<longleftrightarrow> (\<forall>f. id_field (entry_id e) \<noteq> Some f)" by auto
  then show ?thesis by (simp add: has_table_id_iff by_id_def id_field_iff)
qed

lemma apply_nutrient_Some:
  assumes "apply_nutrient info e = Some info'"
  shows "entry_ok e \<and> info' = assign_nutrient info (entry_id e) (entry_name e) (entry_amount e)"
proof -
  from assms obtain n where e: "e = JDict n" by (cases e) simp_all
  from assms e obtain nm where nm: "dict_get n ''nutrientName'' (JStr []) = JStr nm"
    by (cases "dict_get n ''nutrientName'' (JStr [])") simp_all
  from assms e nm show ?thesis by simp
qed

lemma apply_nutrient_ok:
  assumes "entry_ok e"
  shows "apply_nutrient info e = Some (assign_nutrient info (entry_id e) (entry_name e) (entry_amount e))"
proof -
  from assms obtain n where e: "e = JDict n" by (cases e) simp_all
  from assms e obtain nm where nm: "dict_get n ''nutrientName'' (JStr []) = JStr nm"
    by (cases "dict_get n ''nutrientName'' (JStr [])") simp_all
  from e nm show ?thesis by simp
qed

lemma assign_nutrient_field:
  "get_field f (assign_nutrient info (entry_id e) (entry_name e) (entry_amount e))
     = field_step f (get_field f info) e"
proof (cases "id_field (entry_id e)")
  case (Some g)
  then have g: "by_id g e" by (simp add: by_id_def id_field_iff)
  then have "by_id f e \<longleftrightarrow> f = g" by (auto dest: by_id_unique)
  moreover have "\<not> by_name f e" using g by (auto simp: by_name_def has_table_id_iff)
  ultimately show ?thesis using Some
    by (simp add: assign_nutrient_fields field_step_def get_set_field)
next
  case None
  then have no: "\<not> has_table_id e" by (simp add: id_field_None_iff)
  then have nf: "\<not> by_id f e" by (auto simp: has_table_id_iff)
  have bn: "by_name f e \<longleftrightarrow> name_field (entry_name e) = Some f"
    using no by (simp add: by_name_def)
  show ?thesis
  proof (cases "name_field (entry_name e)")
    case N: None
    with None nf bn show ?thesis by (simp add: assign_nutrient_fields field_step_def)
  next
    case S: (Some g)
    with None nf bn show ?thesis
      by (auto simp: assign_nutrient_fields field_step_def get_set_field)
  qed
qed

lemma scan_nutrients_field:
  "scan_nutrients info es = Some r \<Longrightarrow> get_field f r = foldl (field_step f) (get_field f info) es"
proof (induction es arbitrary: info)
  case Nil
  then show ?case by simp
next
  case (Cons e es)
  from Cons.prems obtain info' where
    a: "apply_nutrient info e = Some info'" and s: "scan_nutrients info' es = Some r"
    by (auto split: option.splits)
  from a have "get_field f info' = field_step f (get_field f info) e"
    using apply_nutrient_Some [OF a] by (simp add: assign_nutrient_field)
  with Cons.IH [OF s] show ?case by simp
qed

lemma scan_nutrients_ok:
  "\<forall>e\<in>set es. entry_ok e \<Longrightarrow> \<exists>r. scan_nutrients info es = Some r"
  by (induction es arbitrary: info) (simp_all add: apply_nutrient_ok)

lemma scan_nutrients_entries:
  "scan_nutrients info es = Some r \<Longrightarrow> \<forall>e\<in>set es. entry_ok e"
proof (induction es arbitrary: info)
  case Nil
  then show ?case by simp
next
  case (Cons e es)
  from Cons.prems obtain info' where
    a: "apply_nutrient info e = Some info'" and s: "scan_nutrients info' es = Some r"
    by (auto split: option.splits)
  from apply_nutrient_Some [OF a] Cons.IH [OF s] show ?case by simp
qed

lemma fold_untouched:
  "\<forall>x\<in>set es. \<not> by_id f x \<and> \<not> by_name f x \<Longrightarrow> foldl (field_step f) v es = v"
  by (induction es arbitrary: v) (simp_all add: field_step_def)

lemma fold_nonzero_kept:
  "\<not> py_eq_num v 0 \<Longrightarrow> \<forall>x\<in>set es. \<not> by_id f x \<Longrightarrow> foldl (field_step f) v es = v"
  by (induction es arbitrary: v) (simp_all add: field_step_def)

lemma fold_last_id:
  assumes "by_id f e" and "\<forall>x\<in>set post. \<not> by_id f x"
    and "\<not> py_eq_num (entry_amount e) 0 \<or> (\<forall>x\<in>set post. \<not> by_name f x)"
  shows "foldl (field_step f) v (pre @ e # post) = entry_amount e"
proof -
  have "foldl (field_step f) v (pre @ e # post) = foldl (field_step f) (entry_amount e) post"
    using assms(1) by (simp add: field_step_def)
  also have "\<dots> = entry_amount e"
    using assms(2,3) fold_nonzero_kept [of "entry_amount e" post f]
      fold_untouched [of post f "entry_amount e"] by blast
  finally show ?thesis .
qed

lemma fold_first_named:
  assumes "py_eq_num v 0" and "\<forall>x\<in>set pre. \<not> by_id f x \<and> \<not> by_name f x"
    and "\<not> by_id f e" and "by_name f e" and "\<forall>x\<in>set post. \<not> by_id f x"
    and "\<not> py_eq_num (entry_amount e) 0 \<or> (\<forall>x\<in>set post. \<not> by_name f x)"
  shows "foldl (field_step f) v (pre @ e # post) = entry_amount e"
proof -
  have "foldl (field_step f) v pre = v" using assms(2) by (rule fold_untouched)
  then have "foldl (field_step f) v (pre @ e # post) = foldl (field_step f) (entry_amount e) post"
    using assms(1,3,4) by (simp add: field_step_def)
  also have "\<dots> = entry_amount e"
    using assms(5,6) fold_nonzero_kept [of "entry_amount e" post f]
      fold_untouched [of post f "entry_amount e"] by blast
  finally show ?thesis .
qed

lemma by_name_Sugar:
  "by_name Sugar e \<longleftrightarrow>
     \<not> has_table_id e \<and> contains ''sugar'' (entry_name e) \<and> contains ''total'' (entry_name e)"
  by (simp add: by_name_def name_field_def)

lemmas eval_entry = dict_get_def py_lower_def lower_char_def by_id_def by_name_def has_table_id_def
  all_fields_def name_field_def

text \<open>
  C1, as amended. For a Provider-A payload whose \<^verbatim>\<open>foodNutrients\<close> is a list of entries the
  loop accepts, a record is produced, and for each of the seven fields \<open>f\<close> (identifiers
  2000, 1008, 1005, 1003, 1004, 1079, 1093):
  \<^item> the field is the value of the last entry carrying the identifier of \<open>f\<close>;
  \<^item> when no entry carries the identifier, the field is the value of the first entry, in
    list order, that carries none of the seven identifiers and whose lower-cased name
    matches \<open>f\<close> (for sugar: contains both "sugar" and "total");
  \<^item> when no entry matches \<open>f\<close> by identifier or by name, the field is the default 0.
  The first two hold when the value of the chosen entry is not 0 or no later entry matches
  \<open>f\<close> by name. The two examples of the claim hold: 12.5 by identifier, 8.0 by name.
\<close>

theorem nutrient_field_mapping:
  assumes "dict_get fd ''foodNutrients'' (JList []) = JList es"
    and "\<forall>e\<in>set es. entry_ok e"
  shows "\<exists>r. extract_nutrition_data (JDict fd) = Some r
      \<and> (\<forall>pre e post.
            es = pre @ e # post \<and> by_id f e \<and> (\<forall>x\<in>set post. \<not> by_id f x)
            \<and> (\<not> py_eq_num (entry_amount e) 0 \<or> (\<forall>x\<in>set post. \<not> by_name f x))
            \<longrightarrow> get_field f r = entry_amount e)
      \<and> (\<forall>pre e post.
            es = pre @ e # post \<and> (\<forall>x\<in>set es. \<not> by_id f x)
            \<and> by_name f e \<and> (\<forall>x\<in>set pre. \<not> by_name f x)
            \<and> (\<not> py_eq_num (entry_amount e) 0 \<or> (\<forall>x\<in>set post. \<not> by_name f x))
            \<longrightarrow> get_field f r = entry_amount e)
      \<and> ((\<forall>x\<in>set es. \<not> by_id f x \<and> \<not> by_name f x) \<longrightarrow> get_field f r = JNum 0)"
proof -
  let ?init = "initial_food_info fd"
  have v0: "get_field f ?init = JNum 0"
    by (cases f) (simp_all add: initial_food_info_def)
  from scan_nutrients_ok [OF assms(2)] obtain r where r: "scan_nutrients ?init es = Some r"
    by blast
  with assms(1) have ex: "extract_nutrition_data (JDict fd) = Some r" by simp
  have fold: "get_field f r = foldl (field_step f) (JNum 0) es"
    using scan_nutrients_field [OF r, of f] v0 by simp
  have a: "get_field f r = entry_amount e"
    if "es = pre @ e # post" "by_id f e" "\<forall>x\<in>set post. \<not> by_id f x"
       "\<not> py_eq_num (entry_amount e) 0 \<or> (\<forall>x\<in>set post. \<not> by_name f x)" for pre e post
    using that fold fold_last_id [of f e post "JNum 0" pre] by simp
  have b: "get_field f r = entry_amount e"
    if "es = pre @ e # post" "\<forall>x\<in>set es. \<not> by_id f x" "by_name f e"
       "\<forall>x\<in>set pre. \<not> by_name f x"
       "\<not> py_eq_num (entry_amount e) 0 \<or> (\<forall>x\<in>set post. \<not> by_name f x)" for pre e post
  proof -
    from that(1,2) have "\<forall>x\<in>set pre. \<not> by_id f x" "\<not> by_id f e" "\<forall>x\<in>set post. \<not> by_id f x"
      by simp_all
    with that(3,4,5) have "foldl (field_step f) (JNum 0) (pre @ e # post) = entry_amount e"
      by (intro fold_first_named) simp_all
    with fold that(1) show ?thesis by simp
  qed
  have c: "get_field f r = JNum 0" if "\<forall>x\<in>set es. \<not> by_id f x \<and> \<not> by_name f x"
    using fold_untouched [OF that, of "JNum 0"] fold by simp
  from ex a b c show ?thesis by blast
qed

theorem nutrient_field_mapping_witness:
  "map_option sugar_g (extract_nutrition_data (JDict sugar_by_id_payload)) = Some (JNum 12.5)
   \<and> map_option sugar_g (extract_nutrition_data (JDict sugar_by_name_payload)) = Some (JNum 8)"
proof -
  let ?p = "JDict [(''nutrientId'', JNum 1003), (''nutrientName'', JStr ''Protein''), (''value'', JNum 0.3)]"
  let ?a = "JDict [(''nutrientId'', JNum 2000), (''nutrientName'', JStr ''Sugars''), (''value'', JNum 12.5)]"
  let ?b = "JDict [(''nutrientName'', JStr ''Total Sugars''), (''value'', JNum 8)]"
  have ea: "dict_get sugar_by_id_payload ''foodNutrients'' (JList []) = JList [?p, ?a]"
    by (simp add: sugar_by_id_payload_def dict_get_def)
  have eb: "dict_get sugar_by_name_payload ''foodNutrients'' (JList []) = JList [?p, ?b]"
    by (simp add: sugar_by_name_payload_def dict_get_def)
  have oka: "\<forall>e\<in>set [?p, ?a]. entry_ok e" by (simp add: dict_get_def)
  have okb: "\<forall>e\<in>set [?p, ?b]. entry_ok e" by (simp add: dict_get_def)
  have ida: "by_id Sugar ?a" by (simp add: eval_entry)
  have nza: "\<not> py_eq_num (entry_amount ?a) 0" by (simp add: dict_get_def)
  have noid: "\<forall>x\<in>set [?p, ?b]. \<not> by_id Sugar x" by (simp add: eval_entry)
  have nmb: "by_name Sugar ?b" by (simp add: eval_entry)
  have nmp: "\<forall>x\<in>set [?p]. \<not> by_name Sugar x" by (simp add: eval_entry)
  have nzb: "\<not> py_eq_num (entry_amount ?b) 0" by (simp add: dict_get_def)
  from nutrient_field_mapping [OF ea oka, of Sugar] obtain r where
    r: "extract_nutrition_data (JDict sugar_by_id_payload) = Some r"
    and "\<forall>pre e post.
            [?p, ?a] = pre @ e # post \<and> by_id Sugar e \<and> (\<forall>x\<in>set post. \<not> by_id Sugar x)
            \<and> (\<not> py_eq_num (entry_amount e) 0 \<or> (\<forall>x\<in>set post. \<not> by_name Sugar x))
            \<longrightarrow> get_field Sugar r = entry_amount e"
    by blast
  from this(2) [rule_format, of "[?p]" ?a "[]"] ida nza
  have "get_field Sugar r = entry_amount ?a" by simp
  with r have A: "map_option sugar_g (extract_nutrition_data (JDict sugar_by_id_payload)) = Some (JNum 12.5)"
    by (simp add: dict_get_def)
  from nutrient_field_mapping [OF eb okb, of Sugar] obtain q where
    q: "extract_nutrition_data (JDict sugar_by_name_payload) = Some q"
    and "\<forall>pre e post.
            [?p, ?b] = pre @ e # post \<and> (\<forall>x\<in>set [?p, ?b]. \<not> by_id Sugar x)
            \<and> by_name Sugar e \<and> (\<forall>x\<in>set pre. \<not> by_name Sugar x)
            \<and> (\<not> py_eq_num (entry_amount e) 0 \<or> (\<forall>x\<in>set post. \<not> by_name Sugar x))
            \<longrightarrow> get_field Sugar q = entry_amount e"
    by blast
  from this(2) [rule_format, of "[?p]" ?b "[]"] noid nmb nmp nzb
  have "get_field Sugar q = entry_amount ?b" by simp
  with q have B: "map_option sugar_g (extract_nutrition_data (JDict sugar_by_name_payload)) = Some (JNum 8)"
    by (simp add: dict_get_def)
  from A B show ?thesis ..
qed

text \<open>
  C1 as stated fails: the name tests are reached only by an entry that carries none of the
  seven identifiers. Here no entry has identifier 2000 and the first entry whose name
  contains "sugar" and "total" carries the carbohydrate identifier 1005: its value 20 goes
  to \<open>carbs_g\<close>, and the sugar field is the 8 of the second entry. \<open>spec_sugar_g\<close> is the
  value the claim names.
\<close>

theorem nutrient_mapping_counterexample:
  "map_option sugar_g (extract_nutrition_data (JDict [(''foodNutrients'', JList named_with_other_id)]))
     = Some (JNum 8)
   \<and> map_option carbs_g (extract_nutrition_data (JDict [(''foodNutrients'', JList named_with_other_id)]))
     = Some (JNum 20)
   \<and> spec_sugar_g named_with_other_id = JNum 20"
  by (simp add: named_with_other_id_def spec_sugar_g_def dict_get_def
      assign_nutrient_def py_lower_def lower_char_def initial_food_info_def)

text \<open>
  The guard \<^verbatim>\<open>food_info[...] == 0\<close> cannot tell a field that was set to 0 from one that
  was never set (the source comments it with "Only if not already set"). An identifier
  entry of value 0 followed by a name match, and a name match of value 0 followed by
  another, are both overridden by the later entry.
\<close>

lemma zero_sentinel_override:
  "map_option sugar_g (extract_nutrition_data (JDict [(''foodNutrients'', JList zero_id_then_name)]))
     = Some (JNum 8)
   \<and> map_option sugar_g (extract_nutrition_data (JDict [(''foodNutrients'', JList zero_name_then_name)]))
     = Some (JNum 3)"
  by (simp add: zero_id_then_name_def zero_name_then_name_def dict_get_def
      assign_nutrient_def py_lower_def lower_char_def initial_food_info_def)

section \<open>Non-negative nutrient fields\<close>

lemma fold_nonneg:
  "nonneg_num v \<Longrightarrow> \<forall>e\<in>set es. nonneg_num (entry_amount e) \<Longrightarrow>
   nonneg_num (foldl (field_step f) v es)"
  by (induction es arbitrary: v) (simp_all add: field_step_def)

lemma py_or_nonneg:
  assumes "absent_or_null nut k \<or> (\<exists>x\<ge>0. map_of nut k = Some (JNum x))"
  shows "\<exists>y\<ge>0. py_or (dict_get nut k (JNum 0)) (JNum 0) = JNum y"
  using assms by (auto simp: absent_or_null_def dict_get_def py_or_def)

text \<open>
  C8, as amended. When every entry of a Provider-A payload is accepted by the loop and its
  value, where given, is a non-negative number, the record is produced and its seven
  nutrient fields are non-negative numbers. When each of the seven Provider-B keys is
  absent, null or a non-negative number (and the description can be built), the record is
  produced and its seven nutrient fields are non-negative numbers.
\<close>

theorem normalized_fields_nonneg:
  "(dict_get fd ''foodNutrients'' (JList []) = JList es
      \<and> (\<forall>e\<in>set es. entry_ok e \<and> nonneg_num (entry_amount e))
    \<longrightarrow> (\<exists>r. extract_nutrition_data (JDict fd) = Some r \<and> all_nonneg r))
   \<and> (dict_get pd ''nutriments'' (JDict []) = JDict nut
      \<and> off_description str_of pd = Some d
      \<and> (\<forall>k\<in>set off_keys. absent_or_null nut k \<or> (\<exists>x\<ge>0. map_of nut k = Some (JNum x)))
    \<longrightarrow> (\<exists>info. extract_openfoodfacts_data str_of (JDict pd) = Some info \<and> all_nonneg info))"
proof (intro conjI impI)
  assume A: "dict_get fd ''foodNutrients'' (JList []) = JList es
      \<and> (\<forall>e\<in>set es. entry_ok e \<and> nonneg_num (entry_amount e))"
  then have ok: "\<forall>e\<in>set es. entry_ok e" and nn: "\<forall>e\<in>set es. nonneg_num (entry_amount e)"
    by blast+
  from scan_nutrients_ok [OF ok] obtain r where
    r: "scan_nutrients (initial_food_info fd) es = Some r" by blast
  have "nonneg_num (get_field f r)" for f
  proof -
    have "get_field f (initial_food_info fd) = JNum 0"
      by (cases f) (simp_all add: initial_food_info_def)
    with scan_nutrients_field [OF r, of f] fold_nonneg [of "JNum 0" es f] nn
    show ?thesis by simp
  qed
  then have "all_nonneg r" by (simp add: all_nonneg_def list_all_iff)
  with r A show "\<exists>r. extract_nutrition_data (JDict fd) = Some r \<and> all_nonneg r" by simp
next
  assume B: "dict_get pd ''nutriments'' (JDict []) = JDict nut
      \<and> off_description str_of pd = Some d
      \<and> (\<forall>k\<in>set off_keys. absent_or_null nut k \<or> (\<exists>x\<ge>0. map_of nut k = Some (JNum x)))"
  then have keys: "absent_or_null nut k \<or> (\<exists>x\<ge>0. map_of nut k = Some (JNum x))"
    if "k \<in> set off_keys" for k
    using that by blast
  have v: "\<exists>y\<ge>0. py_or (dict_get nut k (JNum 0)) (JNum 0) = JNum y" if "k \<in> set off_keys" for k
    using keys [OF that] by (rule py_or_nonneg)
  from v [of "''sugars_100g''"] obtain y1 where
    y1: "0 \<le> y1" "py_or (dict_get nut ''sugars_100g'' (JNum 0)) (JNum 0) = JNum y1"
    by (auto simp: off_keys_def)
  from v [of "''energy-kcal_100g''"] obtain y2 where
    y2: "0 \<le> y2" "py_or (dict_get nut ''energy-kcal_100g'' (JNum 0)) (JNum 0) = JNum y2"
    by (auto simp: off_keys_def)
  from v [of "''carbohydrates_100g''"] obtain y3 where
    y3: "0 \<le> y3" "py_or (dict_get nut ''carbohydrates_100g'' (JNum 0)) (JNum 0) = JNum y3"
    by (auto simp: off_keys_def)
  from v [of "''proteins_100g''"] obtain y4 where
    y4: "0 \<le> y4" "py_or (dict_get nut ''proteins_100g'' (JNum 0)) (JNum 0) = JNum y4"
    by (auto simp: off_keys_def)
  from v [of "''fat_100g''"] obtain y5 where
    y5: "0 \<le> y5" "py_or (dict_get nut ''fat_100g'' (JNum 0)) (JNum 0) = JNum y5"
    by (auto simp: off_keys_def)
  from v [of "''fiber_100g''"] obtain y6 where
    y6: "0 \<le> y6" "py_or (dict_get nut ''fiber_100g'' (JNum 0)) (JNum 0) = JNum y6"
    by (auto simp: off_keys_def)
  from v [of "''sodium_100g''"] obtain y7 where
    y7: "0 \<le> y7" "py_or (dict_get nut ''sodium_100g'' (JNum 0)) (JNum 0) = JNum y7"
    by (auto simp: off_keys_def)
  from B y1 y2 y3 y4 y5 y6 y7
  show "\<exists>info. extract_openfoodfacts_data str_of (JDict pd) = Some info \<and> all_nonneg info"
    by (simp add: all_nonneg_def all_fields_def)
qed

theorem normalized_fields_nonneg_witness:
  "map_option all_nonneg (extract_nutrition_data (JDict sugar_by_id_payload)) = Some True
   \<and> map_option all_nonneg (extract_openfoodfacts_data (\<lambda>v. ''?'') (JDict crackers)) = Some True"
proof -
  let ?p = "JDict [(''nutrientId'', JNum 1003), (''nutrientName'', JStr ''Protein''), (''value'', JNum 0.3)]"
  let ?a = "JDict [(''nutrientId'', JNum 2000), (''nutrientName'', JStr ''Sugars''), (''value'', JNum 12.5)]"
  let ?nut = "[(''sodium_100g'', JNum 0.4), (''sugars_100g'', JNull)]"
  have a: "dict_get sugar_by_id_payload ''foodNutrients'' (JList []) = JList [?p, ?a]
           \<and> (\<forall>e\<in>set [?p, ?a]. entry_ok e \<and> nonneg_num (entry_amount e))"
    by (simp add: sugar_by_id_payload_def dict_get_def)
  have b: "dict_get crackers ''nutriments'' (JDict []) = JDict ?nut
      \<and> off_description (\<lambda>v. ''?'') crackers = Some (JStr [])
      \<and> (\<forall>k\<in>set off_keys. absent_or_null ?nut k \<or> (\<exists>x\<ge>0. map_of ?nut k = Some (JNum x)))"
  proof -
    have "\<exists>x\<ge>(0::real). x * 5 = 2" by (rule exI [of _ "2 / 5"]) simp
    then show ?thesis
      by (simp add: crackers_def dict_get_def off_description_def off_keys_def absent_or_null_def)
  qed
  from normalized_fields_nonneg [of sugar_by_id_payload "[?p, ?a]" crackers ?nut "\<lambda>v. ''?''" "JStr []"] a b
  obtain r info where
    "extract_nutrition_data (JDict sugar_by_id_payload) = Some r" "all_nonneg r"
    "extract_openfoodfacts_data (\<lambda>v. ''?'') (JDict crackers) = Some info" "all_nonneg info"
    by blast
  then show ?thesis by simp
qed

text \<open>
  C8 as stated fails: neither normalizer checks the sign of a value, so a negative value in
  the payload is copied into the record.
\<close>

theorem normalized_fields_counterexample:
  "map_option sugar_g (extract_nutrition_data negative_sugar_usda) = Some (JNum (- 1))
   \<and> map_option all_nonneg (extract_nutrition_data negative_sugar_usda) = Some False
   \<and> map_option sugar_g (extract_openfoodfacts_data (\<lambda>v. ''?'') negative_sugar_off) = Some (JNum (- 5))
   \<and> map_option all_nonneg (extract_openfoodfacts_data (\<lambda>v. ''?'') negative_sugar_off) = Some False"
  by (simp add: negative_sugar_usda_def negative_sugar_off_def dict_get_def assign_nutrient_def
      initial_food_info_def off_description_def py_or_def all_nonneg_def all_fields_def)

end
